theory Spec2Isabelle
  imports Complex_Main
begin

section \<open>JavaScript values used by the analysis engine\<close>

text \<open>
  Source texts and all strings of the engine are modelled as \<open>string\<close>; one \<open>char\<close>
  stands for one code unit, so \<open>length\<close> is the \<open>.length\<close> of the source.
  Numbers that only ever hold counts are \<open>nat\<close>, numbers that are subtracted are
  \<open>int\<close>, and quotients are exact rationals.
\<close>

datatype error = TypeError

text \<open>\<open>String.prototype.substring(a, b)\<close>: the arguments are swapped when \<open>a > b\<close> and
  clamped to the length of the string.\<close>

definition substring :: "string \<Rightarrow> nat \<Rightarrow> nat \<Rightarrow> string" where
  "substring s a b = take (max a b - min a b) (drop (min a b) s)"

text \<open>\<open>String.prototype.trim()\<close> removes white space and line terminators at both ends;
  below code unit 256 these are TAB, LF, VT, FF, CR, SPACE and NBSP.\<close>

definition isWhiteSpace :: "char \<Rightarrow> bool" where
  "isWhiteSpace ch = (of_char ch \<in> {9, 10, 11, 12, 13, 32, 160 :: nat})"

definition trim :: "string \<Rightarrow> string" where
  "trim s = rev (dropWhile isWhiteSpace (rev (dropWhile isWhiteSpace s)))"

text \<open>\<open>String.prototype.toLowerCase()\<close> on code units below 256: the ASCII capitals and
  the Latin-1 capitals (all of 192..222 but the multiplication sign 215) move up by 32.\<close>

definition lowerChar :: "char \<Rightarrow> char" where
  "lowerChar ch =
     (let n = (of_char ch :: nat)
      in if (65 \<le> n \<and> n \<le> 90) \<or> (192 \<le> n \<and> n \<le> 222 \<and> n \<noteq> 215)
         then char_of (n + 32) else ch)"

definition toLowerCase :: "string \<Rightarrow> string" where
  "toLowerCase s = map lowerChar s"

text \<open>\<open>String.prototype.split(',')\<close>: the pieces between the commas; the empty string
  splits into one empty piece.\<close>

fun split_comma_acc :: "string \<Rightarrow> string \<Rightarrow> string list" where
  "split_comma_acc acc [] = [rev acc]"
| "split_comma_acc acc (ch # cs) =
     (if ch = CHR '','' then rev acc # split_comma_acc [] cs
      else split_comma_acc (ch # acc) cs)"

definition split_comma :: "string \<Rightarrow> string list" where
  "split_comma s = split_comma_acc [] s"

text \<open>The decimal numeral of a number, as string concatenation with a number yields it.\<close>

function string_of_nat :: "nat \<Rightarrow> string" where
  "string_of_nat n =
     (if n < 10 then [char_of (48 + n)]
      else string_of_nat (n div 10) @ [char_of (48 + n mod 10)])"
  by pat_completeness auto
termination
  by (relation "measure id") auto

definition string_of_int :: "int \<Rightarrow> string" where
  "string_of_int i = (if i < 0 then CHR ''-'' # string_of_nat (nat (- i)) else string_of_nat (nat i))"

text \<open>The engine's \<open>ratio(part, total)\<close>.\<close>

definition ratio :: "nat \<Rightarrow> nat \<Rightarrow> rat" where
  "ratio part tot = (if tot = 0 then 0 else of_nat part / of_nat tot)"

section \<open>The syntax tree\<close>

text \<open>
  The tree producer is an external collaborator; the engine consumes its output shape.
  Every node carries its source range. The node kinds the engine dispatches on have a
  constructor of their own, with the fields the engine reads; every other kind is a
  \<open>Node\<close> with its kind name and its children.
\<close>

record loc =
  start_offset :: nat
  end_offset :: nat
  start_line :: int
  end_line :: int

text \<open>\<open>Declaration.important\<close> is a boolean, or the text after \<open>!\<close> when that is not
  \<open>important\<close>.\<close>

datatype important = Flag bool | Marker string

datatype node =
    StyleSheet loc "node list"
  | Atrule loc string "node option" "node option"
  | AtrulePrelude loc "node list"
  | Rule loc node node
  | SelectorList loc "node list"
  | Selector loc "node list"
  | Block loc "node list"
  | Declaration loc important string node
  | Value loc "node list"
  | Raw loc string
  | Dimension loc string string
  | Url loc string
  | Hash loc string
  | Identifier loc string
  | Function loc string "node list"
  | Operator loc string
  | Node string loc "node list"

fun node_loc :: "node \<Rightarrow> loc" where
  "node_loc (StyleSheet l _) = l"
| "node_loc (Atrule l _ _ _) = l"
| "node_loc (AtrulePrelude l _) = l"
| "node_loc (Rule l _ _) = l"
| "node_loc (SelectorList l _) = l"
| "node_loc (Selector l _) = l"
| "node_loc (Block l _) = l"
| "node_loc (Declaration l _ _ _) = l"
| "node_loc (Value l _) = l"
| "node_loc (Raw l _) = l"
| "node_loc (Dimension l _ _) = l"
| "node_loc (Url l _) = l"
| "node_loc (Hash l _) = l"
| "node_loc (Identifier l _) = l"
| "node_loc (Function l _ _) = l"
| "node_loc (Operator l _) = l"
| "node_loc (Node _ l _) = l"

text \<open>\<open>node.children\<close>: the child list of the kinds that have one, \<open>None\<close> for
  \<open>undefined\<close>.\<close>

fun children :: "node \<Rightarrow> node list option" where
  "children (StyleSheet _ ns) = Some ns"
| "children (AtrulePrelude _ ns) = Some ns"
| "children (SelectorList _ ns) = Some ns"
| "children (Selector _ ns) = Some ns"
| "children (Block _ ns) = Some ns"
| "children (Value _ ns) = Some ns"
| "children (Function _ _ ns) = Some ns"
| "children (Node _ _ ns) = Some ns"
| "children _ = None"

fun is_Declaration :: "node \<Rightarrow> bool" where
  "is_Declaration (Declaration _ _ _ _) = True"
| "is_Declaration _ = False"

fun is_Operator :: "node \<Rightarrow> bool" where
  "is_Operator (Operator _ _) = True"
| "is_Operator _ = False"

section \<open>The traversal primitive\<close>

text \<open>
  Modelled from the spec: the traversal primitive is an external collaborator (section 6,
  traversal contract). It calls the visitor on every node in document order (pre-order)
  with the ancestor context, and does not visit the children of a node for which the
  visitor returns the skip signal. The engine never returns the stop signal.

  The context holds what the engine reads of it: the name of the nearest enclosing at-rule
  (\<open>this.atrule.name\<close>), the property and the important marker of the nearest enclosing
  declaration, and whether the node lies in an at-rule prelude
  (\<open>this.atrulePrelude !== null\<close>). The context of a node is set by its ancestors, so the
  visitor of an at-rule sees the at-rule that encloses it, not itself.
\<close>

datatype signal = Continue | Skip

record ctx =
  this_atrule :: "string option"
  this_declaration :: "(string \<times> important) option"
  this_atrulePrelude :: bool

definition root_ctx :: ctx where
  "root_ctx = \<lparr>this_atrule = None, this_declaration = None, this_atrulePrelude = False\<rparr>"

fun subnodes :: "node \<Rightarrow> node list" where
  "subnodes (Atrule _ _ prelude block) = (case prelude of None \<Rightarrow> [] | Some p \<Rightarrow> [p]) @ (case block of None \<Rightarrow> [] | Some b \<Rightarrow> [b])"
| "subnodes (Rule _ prelude block) = [prelude, block]"
| "subnodes (Declaration _ _ _ v) = [v]"
| "subnodes n = (case children n of None \<Rightarrow> [] | Some ns \<Rightarrow> ns)"

fun enter :: "ctx \<Rightarrow> node \<Rightarrow> ctx" where
  "enter c (Atrule _ name _ _) = c\<lparr>this_atrule := Some name\<rparr>"
| "enter c (AtrulePrelude _ _) = c\<lparr>this_atrulePrelude := True\<rparr>"
| "enter c (Declaration _ imp property _) = c\<lparr>this_declaration := Some (property, imp)\<rparr>"
| "enter c _ = c"

definition walk_measure :: "node list \<Rightarrow> nat" where
  "walk_measure ns = sum_list (map (\<lambda>n. 4 * size n + 2) ns)"

lemma walk_measure_simps [simp]:
  "walk_measure [] = 0"
  "walk_measure (n # ns) = 4 * size n + 2 + walk_measure ns"
  by (simp_all add: walk_measure_def)

lemma walk_measure_le: "walk_measure ns \<le> 4 * size_list size ns"
  by (induction ns) auto

lemma walk_measure_subnodes: "walk_measure (subnodes n) < Suc (4 * size n)"
proof (cases n)
  case (Atrule l name prelude block)
  then show ?thesis by (cases prelude; cases block) auto
qed (use walk_measure_le [of "subnodes n"] in auto)

function walk :: "(ctx \<Rightarrow> node \<Rightarrow> 's \<Rightarrow> error + signal \<times> 's) \<Rightarrow> ctx \<Rightarrow> node \<Rightarrow> 's \<Rightarrow> error + 's"
  and walk_list :: "(ctx \<Rightarrow> node \<Rightarrow> 's \<Rightarrow> error + signal \<times> 's) \<Rightarrow> ctx \<Rightarrow> node list \<Rightarrow> 's \<Rightarrow> error + 's"
where
  "walk f c n s =
     (case f c n s of
        Inl e \<Rightarrow> Inl e
      | Inr (Skip, s') \<Rightarrow> Inr s'
      | Inr (Continue, s') \<Rightarrow> walk_list f (enter c n) (subnodes n) s')"
| "walk_list f c [] s = Inr s"
| "walk_list f c (n # ns) s =
     (case walk f c n s of
        Inl e \<Rightarrow> Inl e
      | Inr s' \<Rightarrow> walk_list f c ns s')"
  by pat_completeness auto
termination
  by (relation "measure (\<lambda>x. case x of Inl (f, c, n, s) \<Rightarrow> Suc (4 * size n) | Inr (f, c, ns, s) \<Rightarrow> walk_measure ns)")
     (auto simp: walk_measure_subnodes)

section \<open>Accumulator primitives\<close>

subsection \<open>Frequency counter\<close>

text \<open>
  Modelled from the spec: \<open>CountableCollection\<close> (\<open>countable-collection.js\<close>) is not part
  of the sources at hand. Sections 2, 3 and 4.1: a mapping from a key to its occurrence
  count that preserves first-seen order; \<open>push(key)\<close> records one occurrence; \<open>count()\<close>
  reports the total occurrences, the number of distinct keys, the uniqueness ratio (0 when
  the total is 0) and the per-key counts in first-seen order. \<open>size()\<close>, which the engine
  calls, is the total of occurrences, and the constructor the engine calls with an array
  pushes its elements in order.
\<close>

type_synonym 'k CountableCollection = "('k \<times> nat) list"

fun cc_push :: "'k \<Rightarrow> 'k CountableCollection \<Rightarrow> 'k CountableCollection" where
  "cc_push k [] = [(k, 1)]"
| "cc_push k ((k', n) # c) = (if k' = k then (k', Suc n) # c else (k', n) # cc_push k c)"

definition cc_size :: "'k CountableCollection \<Rightarrow> nat" where
  "cc_size c = sum_list (map snd c)"

definition cc_of_array :: "'k list \<Rightarrow> 'k CountableCollection" where
  "cc_of_array xs = foldl (\<lambda>c x. cc_push x c) [] xs"

record ('k, 'v) count_result =
  count_total :: nat
  count_totalUnique :: nat
  count_unique :: "('k \<times> 'v) list"
  count_uniquenessRatio :: rat

definition cc_count :: "'k CountableCollection \<Rightarrow> ('k, nat) count_result" where
  "cc_count c =
     \<lparr>count_total = cc_size c, count_totalUnique = length c, count_unique = c,
      count_uniquenessRatio = ratio (length c) (cc_size c)\<rparr>"

subsection \<open>Numeric aggregator\<close>

text \<open>
  Modelled from the spec: \<open>AggregateCollection\<close> (\<open>aggregate-collection.js\<close>) is not part
  of the sources at hand. Sections 3 and 4.2: \<open>push(value)\<close> appends a sample;
  \<open>toArray()\<close> is the sample sequence in push order; \<open>aggregate()\<close> reports count, sum,
  mean (0 when there is no sample), min, max, median (the middle of the sorted samples, the
  average of the two middles when the count is even) and mode (the most frequent sample,
  the first by first occurrence among those of highest frequency). The spec gives no value
  for min, max, median and mode of no samples: they are \<open>None\<close> then.
\<close>

type_synonym AggregateCollection = "int list"

definition agg_push :: "int \<Rightarrow> AggregateCollection \<Rightarrow> AggregateCollection" where
  "agg_push x c = c @ [x]"

definition agg_size :: "AggregateCollection \<Rightarrow> nat" where
  "agg_size c = length c"

definition toArray :: "AggregateCollection \<Rightarrow> int list" where
  "toArray c = c"

fun minimum :: "int list \<Rightarrow> int option" where
  "minimum [] = None"
| "minimum (x # xs) = Some (foldl min x xs)"

fun maximum :: "int list \<Rightarrow> int option" where
  "maximum [] = None"
| "maximum (x # xs) = Some (foldl max x xs)"

definition median :: "int list \<Rightarrow> rat option" where
  "median xs =
     (let sorted = sort xs; n = length xs
      in if n = 0 then None
         else if odd n then Some (of_int (sorted ! (n div 2)))
         else Some ((of_int (sorted ! (n div 2 - 1)) + of_int (sorted ! (n div 2))) / 2))"

fun mode :: "int list \<Rightarrow> int option" where
  "mode [] = None"
| "mode (x # xs) =
     Some (foldl (\<lambda>best y. if count_list (x # xs) best < count_list (x # xs) y then y else best) x xs)"

record aggregate_result =
  agg_count :: nat
  agg_sum :: int
  agg_mean :: rat
  agg_min :: "int option"
  agg_max :: "int option"
  agg_median :: "rat option"
  agg_mode :: "int option"

definition aggregate :: "AggregateCollection \<Rightarrow> aggregate_result" where
  "aggregate c =
     \<lparr>agg_count = length c, agg_sum = sum_list c,
      agg_mean = (if length c = 0 then 0 else of_int (sum_list c) / of_nat (length c)),
      agg_min = minimum c, agg_max = maximum c, agg_median = median c, agg_mode = mode c\<rparr>"

subsection \<open>Context counter\<close>

text \<open>
  Modelled from the spec: \<open>ContextCollection\<close> (\<open>context-collection.js\<close>) is not part of
  the sources at hand. Sections 3 and 4.3: a mapping from a primary key to its total count
  and to a mapping from secondary keys to counts; \<open>push(primaryKey, secondaryKey)\<close> records
  one co-occurrence; \<open>count()\<close> reports the total, the number of distinct primary keys, the
  uniqueness ratio and, per primary key, its total and its per-secondary-key counts.
\<close>

record context_item =
  item_total :: nat
  item_contexts :: "string CountableCollection"

type_synonym ContextCollection = "(string \<times> context_item) list"

fun ctx_push :: "string \<Rightarrow> string \<Rightarrow> ContextCollection \<Rightarrow> ContextCollection" where
  "ctx_push k x [] = [(k, \<lparr>item_total = 1, item_contexts = cc_push x []\<rparr>)]"
| "ctx_push k x ((k', i) # c) =
     (if k' = k
      then (k', \<lparr>item_total = Suc (item_total i), item_contexts = cc_push x (item_contexts i)\<rparr>) # c
      else (k', i) # ctx_push k x c)"

definition ctx_size :: "ContextCollection \<Rightarrow> nat" where
  "ctx_size c = sum_list (map (\<lambda>(k, i). item_total i) c)"

definition ctx_count :: "ContextCollection \<Rightarrow> (string, context_item) count_result" where
  "ctx_count c =
     \<lparr>count_total = ctx_size c, count_totalUnique = length c, count_unique = c,
      count_uniquenessRatio = ratio (length c) (ctx_size c)\<rparr>"

subsection \<open>Sets of strings\<close>

text \<open>A JavaScript \<open>Set\<close> of strings: its elements in insertion order; \<open>.size\<close> is the
  length.\<close>

definition set_add :: "string \<Rightarrow> string list \<Rightarrow> string list" where
  "set_add x xs = (if x \<in> set xs then xs else xs @ [x])"

section \<open>Collaborators of the engine\<close>

text \<open>
  \<open>index.js\<close> imports the parser, the specificity calculator and the classification
  heuristics from modules that are not part of the sources at hand. The engine is modelled
  over any implementation of them: they are the fields of \<open>helpers\<close>, named as
  \<open>index.js\<close> imports them. \<open>parse\<close> yields the tree and the comments it reported to
  \<open>onComment\<close>, in order. The lookup sets are sets of strings, \<open>has\<close> is membership.
  \<open>destructure\<close> and \<open>analyzeAnimation\<close> receive \<open>stringifyNode\<close> as the source passes
  it.
\<close>

type_synonym Specificity = "nat \<times> nat \<times> nat"

record font_parts =
  font_size :: "string option"
  line_height :: "string option"
  font_family :: "string option"

record helpers =
  parse :: "string \<Rightarrow> node \<times> string list"
  calculate :: "node \<Rightarrow> Specificity"
  isSupportsBrowserhack :: "node \<Rightarrow> bool"
  isMediaBrowserhack :: "node \<Rightarrow> bool"
  getComplexity :: "node \<Rightarrow> int \<times> bool"
  isAccessibility :: "node \<Rightarrow> bool"
  compareSpecificity :: "Specificity \<Rightarrow> Specificity \<Rightarrow> int"
  colorFunctions :: "string set"
  colorKeywords :: "string set"
  namedColors :: "string set"
  systemColors :: "string set"
  destructure :: "node \<Rightarrow> (node \<Rightarrow> string) \<Rightarrow> font_parts"
  isSystemFont :: "node \<Rightarrow> bool"
  isValueKeyword :: "node \<Rightarrow> bool"
  analyzeAnimation :: "node list \<Rightarrow> (node \<Rightarrow> string) \<Rightarrow> string list \<times> string list"
  isAstVendorPrefixed :: "node \<Rightarrow> bool"
  strEquals :: "string \<Rightarrow> string \<Rightarrow> bool"
  startsWith :: "string \<Rightarrow> string \<Rightarrow> bool"
  endsWith :: "string \<Rightarrow> string \<Rightarrow> bool"
  hasVendorPrefix :: "string \<Rightarrow> bool"
  isCustom :: "string \<Rightarrow> bool"
  isHack :: "string \<Rightarrow> bool"
  isProperty :: "string \<Rightarrow> string \<Rightarrow> bool"
  getEmbedType :: "string \<Rightarrow> string"
  isIe9Hack :: "node \<Rightarrow> bool"

section \<open>The accumulators of one analysis\<close>

text \<open>The variables that \<open>analyze\<close> declares and its visitors update, in the order of
  their declaration.\<close>

record embed_item =
  embed_count :: nat
  embed_size :: nat

record state =
  totalComments :: nat
  commentsSize :: nat
  embeds :: "string CountableCollection"
  embedSize :: nat
  embedTypes_total :: nat
  embedTypes_unique :: "(string \<times> embed_item) list"
  totalAtRules :: nat
  fontfaces :: "(string \<times> string) list list"
  layers :: "string CountableCollection"
  imports' :: "string CountableCollection"
  medias :: "string CountableCollection"
  mediaBrowserhacks :: "string CountableCollection"
  charsets :: "string CountableCollection"
  supports :: "string CountableCollection"
  supportsBrowserhacks :: "string CountableCollection"
  keyframes :: "string CountableCollection"
  prefixedKeyframes :: "string CountableCollection"
  containers :: "string CountableCollection"
  totalRules :: nat
  emptyRules :: nat
  ruleSizes :: AggregateCollection
  selectorsPerRule :: AggregateCollection
  declarationsPerRule :: AggregateCollection
  keyframeSelectors :: "string CountableCollection"
  uniqueSelectors :: "string list"
  prefixedSelectors :: "string CountableCollection"
  maxSpecificity :: "Specificity option"
  minSpecificity :: "Specificity option"
  specificityA :: AggregateCollection
  specificityB :: AggregateCollection
  specificityC :: AggregateCollection
  uniqueSpecificities :: "string CountableCollection"
  selectorComplexities :: AggregateCollection
  specificities :: "Specificity list"
  ids :: "string CountableCollection"
  a11y :: "string CountableCollection"
  uniqueDeclarations :: "string list"
  totalDeclarations :: nat
  importantDeclarations :: nat
  importantsInKeyframes :: nat
  importantCustomProperties :: "string CountableCollection"
  properties :: "string CountableCollection"
  propertyHacks :: "string CountableCollection"
  propertyVendorPrefixes :: "string CountableCollection"
  customProperties :: "string CountableCollection"
  propertyComplexities :: AggregateCollection
  vendorPrefixedValues :: "string CountableCollection"
  valueBrowserhacks :: "string CountableCollection"
  zindex :: "string CountableCollection"
  textShadows :: "string CountableCollection"
  boxShadows :: "string CountableCollection"
  fontFamilies :: "string CountableCollection"
  fontSizes :: "string CountableCollection"
  lineHeights :: "string CountableCollection"
  timingFunctions :: "string CountableCollection"
  durations :: "string CountableCollection"
  colors :: ContextCollection
  colorFormats :: "string CountableCollection"
  units :: ContextCollection
  gradients :: "string CountableCollection"

definition initial_state :: state where
  "initial_state =
     \<lparr>totalComments = 0, commentsSize = 0, embeds = [], embedSize = 0,
      embedTypes_total = 0, embedTypes_unique = [],
      totalAtRules = 0, fontfaces = [], layers = [], imports' = [], medias = [],
      mediaBrowserhacks = [], charsets = [], supports = [], supportsBrowserhacks = [],
      keyframes = [], prefixedKeyframes = [], containers = [],
      totalRules = 0, emptyRules = 0, ruleSizes = [], selectorsPerRule = [],
      declarationsPerRule = [],
      keyframeSelectors = [], uniqueSelectors = [], prefixedSelectors = [],
      maxSpecificity = None, minSpecificity = None,
      specificityA = [], specificityB = [], specificityC = [], uniqueSpecificities = [],
      selectorComplexities = [], specificities = [], ids = [], a11y = [],
      uniqueDeclarations = [], totalDeclarations = 0, importantDeclarations = 0,
      importantsInKeyframes = 0, importantCustomProperties = [],
      properties = [], propertyHacks = [], propertyVendorPrefixes = [],
      customProperties = [], propertyComplexities = [],
      vendorPrefixedValues = [], valueBrowserhacks = [], zindex = [], textShadows = [],
      boxShadows = [], fontFamilies = [], fontSizes = [], lineHeights = [],
      timingFunctions = [], durations = [], colors = [], colorFormats = [], units = [],
      gradients = []\<rparr>"

section \<open>The analysis engine\<close>

subsection \<open>Rendering a node\<close>

definition stringifyNodePlain :: "string \<Rightarrow> node \<Rightarrow> string" where
  "stringifyNodePlain css n = substring css (start_offset (node_loc n)) (end_offset (node_loc n))"

definition stringifyNode :: "string \<Rightarrow> node \<Rightarrow> string" where
  "stringifyNode css n = trim (stringifyNodePlain css n)"

text \<open>The comment callback that \<open>analyze\<close> hands to the parser.\<close>

definition onComment :: "string \<Rightarrow> state \<Rightarrow> state" where
  "onComment comment st =
     st\<lparr>totalComments := totalComments st + 1, commentsSize := commentsSize st + length comment\<rparr>"

subsection \<open>At-rules\<close>

text \<open>Assignment to a key of an object literal: an own key keeps its place, a new key
  goes last, and assigning a string to \<open>__proto__\<close> creates no key.\<close>

fun obj_update :: "string \<Rightarrow> string \<Rightarrow> (string \<times> string) list \<Rightarrow> (string \<times> string) list" where
  "obj_update k v [] = [(k, v)]"
| "obj_update k v ((k', v') # kvs) = (if k' = k then (k', v) # kvs else (k', v') # obj_update k v kvs)"

definition obj_set :: "string \<Rightarrow> string \<Rightarrow> (string \<times> string) list \<Rightarrow> (string \<times> string) list" where
  "obj_set k v obj = (if k = ''__proto__'' then obj else obj_update k v obj)"

fun add_descriptor :: "string \<Rightarrow> node \<Rightarrow> (string \<times> string) list \<Rightarrow> (string \<times> string) list" where
  "add_descriptor css (Declaration _ _ property v) descriptors =
     obj_set property (stringifyNode css v) descriptors"
| "add_descriptor css _ descriptors = descriptors"

text \<open>The \<open>Atrule\<close> case. Reading \<open>node.block.children\<close> of an at-rule without block and
  rendering the prelude of an at-rule without prelude raise a \<open>TypeError\<close>.\<close>

definition visit_Atrule ::
  "helpers \<Rightarrow> string \<Rightarrow> string \<Rightarrow> node option \<Rightarrow> node option \<Rightarrow> state \<Rightarrow> error + signal \<times> state"
where
  "visit_Atrule env css atRuleName prelude block st0 =
     (let st = st0\<lparr>totalAtRules := totalAtRules st0 + 1\<rparr>
      in if atRuleName = ''font-face'' then
           (case block of
              None \<Rightarrow> Inl TypeError
            | Some b \<Rightarrow>
                (case children b of
                   None \<Rightarrow> Inl TypeError
                 | Some ds \<Rightarrow>
                     Inr (Continue, st\<lparr>fontfaces := fontfaces st @ [fold (add_descriptor css) ds []]\<rparr>)))
         else if atRuleName = ''media'' then
           (case prelude of
              None \<Rightarrow> Inl TypeError
            | Some p \<Rightarrow>
                (let st1 = st\<lparr>medias := cc_push (stringifyNode css p) (medias st)\<rparr>
                 in Inr (Continue,
                      if isMediaBrowserhack env p
                      then st1\<lparr>mediaBrowserhacks := cc_push (stringifyNode css p) (mediaBrowserhacks st1)\<rparr>
                      else st1)))
         else if atRuleName = ''supports'' then
           (case prelude of
              None \<Rightarrow> Inl TypeError
            | Some p \<Rightarrow>
                (let st1 = st\<lparr>supports := cc_push (stringifyNode css p) (supports st)\<rparr>
                 in Inr (Continue,
                      if isSupportsBrowserhack env p
                      then st1\<lparr>supportsBrowserhacks := cc_push (stringifyNode css p) (supportsBrowserhacks st1)\<rparr>
                      else st1)))
         else if endsWith env ''keyframes'' atRuleName then
           (case prelude of
              None \<Rightarrow> Inl TypeError
            | Some p \<Rightarrow>
                (let name = ''@'' @ atRuleName @ '' '' @ stringifyNode css p;
                     st1 = (if hasVendorPrefix env atRuleName
                            then st\<lparr>prefixedKeyframes := cc_push name (prefixedKeyframes st)\<rparr>
                            else st)
                 in Inr (Continue, st1\<lparr>keyframes := cc_push name (keyframes st1)\<rparr>)))
         else if atRuleName = ''import'' then
           (case prelude of
              None \<Rightarrow> Inl TypeError
            | Some p \<Rightarrow> Inr (Continue, st\<lparr>imports' := cc_push (stringifyNode css p) (imports' st)\<rparr>))
         else if atRuleName = ''charset'' then
           (case prelude of
              None \<Rightarrow> Inl TypeError
            | Some p \<Rightarrow> Inr (Continue, st\<lparr>charsets := cc_push (stringifyNode css p) (charsets st)\<rparr>))
         else if atRuleName = ''container'' then
           (case prelude of
              None \<Rightarrow> Inl TypeError
            | Some p \<Rightarrow> Inr (Continue, st\<lparr>containers := cc_push (stringifyNode css p) (containers st)\<rparr>))
         else if atRuleName = ''layer'' then
           (case prelude of
              None \<Rightarrow> Inl TypeError
            | Some p \<Rightarrow>
                Inr (Continue,
                  st\<lparr>layers := fold (\<lambda>name. cc_push (trim name)) (split_comma (stringifyNode css p)) (layers st)\<rparr>))
         else Inr (Continue, st))"

subsection \<open>Rules\<close>

definition num_children :: "node \<Rightarrow> nat" where
  "num_children n = (case children n of None \<Rightarrow> 0 | Some ns \<Rightarrow> length ns)"

definition visit_Rule :: "node \<Rightarrow> node \<Rightarrow> state \<Rightarrow> error + signal \<times> state" where
  "visit_Rule prelude block st =
     (let numSelectors = num_children prelude;
          numDeclarations = num_children block;
          st1 = st\<lparr>ruleSizes := agg_push (int (numSelectors + numDeclarations)) (ruleSizes st),
                   selectorsPerRule := agg_push (int numSelectors) (selectorsPerRule st),
                   declarationsPerRule := agg_push (int numDeclarations) (declarationsPerRule st),
                   totalRules := totalRules st + 1\<rparr>
      in Inr (Continue,
           if numDeclarations = 0 then st1\<lparr>emptyRules := emptyRules st1 + 1\<rparr> else st1))"

subsection \<open>Selectors\<close>

definition in_keyframes :: "helpers \<Rightarrow> ctx \<Rightarrow> bool" where
  "in_keyframes env c =
     (case this_atrule c of None \<Rightarrow> False | Some name \<Rightarrow> endsWith env ''keyframes'' name)"

definition specificity_key :: "Specificity \<Rightarrow> string" where
  "specificity_key sp =
     (case sp of (a, b, c) \<Rightarrow> string_of_nat a @ '','' @ string_of_nat b @ '','' @ string_of_nat c)"

definition visit_Selector :: "helpers \<Rightarrow> string \<Rightarrow> ctx \<Rightarrow> node \<Rightarrow> state \<Rightarrow> error + signal \<times> state" where
  "visit_Selector env css c node st =
     (let selector = stringifyNode css node
      in if in_keyframes env c
         then Inr (Skip, st\<lparr>keyframeSelectors := cc_push selector (keyframeSelectors st)\<rparr>)
         else
           (let specificity = calculate env node;
                st1 = (if 0 < fst specificity then st\<lparr>ids := cc_push selector (ids st)\<rparr> else st);
                st2 = (if isAccessibility env node then st1\<lparr>a11y := cc_push selector (a11y st1)\<rparr> else st1);
                complexity = fst (getComplexity env node);
                isPrefixed = snd (getComplexity env node);
                st3 = (if isPrefixed
                       then st2\<lparr>prefixedSelectors := cc_push selector (prefixedSelectors st2)\<rparr>
                       else st2);
                st4 = st3\<lparr>uniqueSelectors := set_add selector (uniqueSelectors st3),
                         selectorComplexities := agg_push complexity (selectorComplexities st3),
                         uniqueSpecificities := cc_push (specificity_key specificity) (uniqueSpecificities st3)\<rparr>;
                max1 = (case maxSpecificity st4 of None \<Rightarrow> specificity | Some m \<Rightarrow> m);
                min1 = (case minSpecificity st4 of None \<Rightarrow> specificity | Some m \<Rightarrow> m);
                st5 = st4\<lparr>specificityA := agg_push (int (fst specificity)) (specificityA st4),
                         specificityB := agg_push (int (fst (snd specificity))) (specificityB st4),
                         specificityC := agg_push (int (snd (snd specificity))) (specificityC st4)\<rparr>;
                min2 = (if compareSpecificity env min1 specificity < 0 then specificity else min1);
                max2 = (if compareSpecificity env max1 specificity > 0 then specificity else max1)
            in Inr (Skip,
                 st5\<lparr>minSpecificity := Some min2, maxSpecificity := Some max2,
                     specificities := specificities st5 @ [specificity]\<rparr>)))"

subsection \<open>Dimensions and urls\<close>

definition backslash9 :: string where
  "backslash9 = [char_of (92 :: nat), CHR ''9'']"

definition visit_Dimension :: "helpers \<Rightarrow> ctx \<Rightarrow> string \<Rightarrow> state \<Rightarrow> error + signal \<times> state" where
  "visit_Dimension env c unit st =
     (case this_declaration c of
        None \<Rightarrow> Inr (Continue, st)
      | Some (property, imp) \<Rightarrow>
          if endsWith env backslash9 unit
          then Inr (Skip, st\<lparr>units := ctx_push (substring unit 0 (length unit - 2)) property (units st)\<rparr>)
          else Inr (Skip, st\<lparr>units := ctx_push unit property (units st)\<rparr>))"

fun embed_update :: "string \<Rightarrow> nat \<Rightarrow> (string \<times> embed_item) list \<Rightarrow> (string \<times> embed_item) list" where
  "embed_update ty sz [] = [(ty, \<lparr>embed_count = 1, embed_size = sz\<rparr>)]"
| "embed_update ty sz ((ty', item) # m) =
     (if ty' = ty
      then (ty', \<lparr>embed_count = embed_count item + 1, embed_size = embed_size item + sz\<rparr>) # m
      else (ty', item) # embed_update ty sz m)"

definition visit_Url :: "helpers \<Rightarrow> string \<Rightarrow> state \<Rightarrow> error + signal \<times> state" where
  "visit_Url env v st =
     (if startsWith env ''data:'' v
      then Inr (Continue,
             st\<lparr>embedTypes_total := embedTypes_total st + 1,
                embedSize := embedSize st + length v,
                embedTypes_unique := embed_update (getEmbedType env v) (length v) (embedTypes_unique st),
                embeds := cc_push v (embeds st)\<rparr>)
      else Inr (Continue, st))"

subsection \<open>Values\<close>

text \<open>The visitor of the nested walk over a value, which collects colors and gradients.
  \<open>property\<close> is the property of the declaration that owns the value.\<close>

definition record_color :: "string \<Rightarrow> string \<Rightarrow> string \<Rightarrow> state \<Rightarrow> state" where
  "record_color color property format st =
     st\<lparr>colors := ctx_push color property (colors st),
        colorFormats := cc_push format (colorFormats st)\<rparr>"

fun value_visitor :: "helpers \<Rightarrow> string \<Rightarrow> string \<Rightarrow> ctx \<Rightarrow> node \<Rightarrow> state \<Rightarrow> error + signal \<times> state" where
  "value_visitor env css property c (Hash l v) st =
     (let hexLength = (if endsWith env backslash9 v then int (length v) - 2 else int (length v))
      in Inr (Skip, record_color (''#'' @ v) property (''hex'' @ string_of_int hexLength) st))"
| "value_visitor env css property c (Identifier l nodeName) st =
     (if length nodeName > 20 \<or> length nodeName < 3 then Inr (Skip, st)
      else if nodeName \<in> namedColors env
      then Inr (Continue, record_color (stringifyNode css (Identifier l nodeName)) property ''named'' st)
      else if nodeName \<in> colorKeywords env
      then Inr (Continue,
             record_color (stringifyNode css (Identifier l nodeName)) property (toLowerCase nodeName) st)
      else if nodeName \<in> systemColors env
      then Inr (Continue, record_color (stringifyNode css (Identifier l nodeName)) property ''system'' st)
      else Inr (Skip, st))"
| "value_visitor env css property c (Function l nodeName ns) st =
     (if strEquals env ''var'' nodeName then Inr (Skip, st)
      else if nodeName \<in> colorFunctions env
      then Inr (Continue,
             record_color (stringifyNode css (Function l nodeName ns)) property (toLowerCase nodeName) st)
      else if endsWith env ''gradient'' nodeName
      then Inr (Continue,
             st\<lparr>gradients := cc_push (stringifyNode css (Function l nodeName ns)) (gradients st)\<rparr>)
      else Inr (Continue, st))"
| "value_visitor env css property c n st = Inr (Continue, st)"

definition walk_value :: "helpers \<Rightarrow> string \<Rightarrow> string \<Rightarrow> node \<Rightarrow> state \<Rightarrow> error + signal \<times> state" where
  "walk_value env css property node st =
     (case walk (value_visitor env css property) root_ctx node st of
        Inl e \<Rightarrow> Inl e
      | Inr st' \<Rightarrow> Inr (Continue, st'))"

text \<open>\<open>if (part) collection.push(part)\<close>: a part counts as true when it is a string that
  is not empty.\<close>

fun push_truthy :: "string option \<Rightarrow> string CountableCollection \<Rightarrow> string CountableCollection" where
  "push_truthy None c = c"
| "push_truthy (Some x) c = (if x = [] then c else cc_push x c)"

definition push_font_parts :: "font_parts \<Rightarrow> state \<Rightarrow> state" where
  "push_font_parts parts st =
     (let st1 = st\<lparr>fontFamilies := push_truthy (font_family parts) (fontFamilies st)\<rparr>;
          st2 = st1\<lparr>fontSizes := push_truthy (font_size parts) (fontSizes st1)\<rparr>
      in st2\<lparr>lineHeights := push_truthy (line_height parts) (lineHeights st2)\<rparr>)"

text \<open>The tokens recorded for a duration or timing-function list: every child that is
  no operator when the value has more than one child, the whole value otherwise.\<close>

definition value_items :: "string \<Rightarrow> node \<Rightarrow> node list \<Rightarrow> string list" where
  "value_items css node ns =
     (if length ns > 1 then map (stringifyNode css) (filter (\<lambda>child. \<not> is_Operator child) ns)
      else [stringifyNode css node])"

text \<open>The \<open>Value\<close> case. Destructuring \<open>this.declaration\<close> raises a \<open>TypeError\<close> when the
  value has no enclosing declaration.\<close>

definition visit_Value :: "helpers \<Rightarrow> string \<Rightarrow> ctx \<Rightarrow> node \<Rightarrow> node list \<Rightarrow> state \<Rightarrow> error + signal \<times> state" where
  "visit_Value env css c node ns st =
     (if isValueKeyword env node then Inr (Continue, st)
      else
        (case this_declaration c of
           None \<Rightarrow> Inl TypeError
         | Some (property, imp) \<Rightarrow>
             (let st1 = (if isAstVendorPrefixed env node
                         then st\<lparr>vendorPrefixedValues := cc_push (stringifyNode css node) (vendorPrefixedValues st)\<rparr>
                         else st);
                  st2 = (case imp of
                           Marker m \<Rightarrow>
                             st1\<lparr>valueBrowserhacks :=
                                   cc_push (stringifyNodePlain css node @ ''!'' @ m) (valueBrowserhacks st1)\<rparr>
                         | Flag b \<Rightarrow> st1);
                  st3 = (if isIe9Hack env node
                         then st2\<lparr>valueBrowserhacks := cc_push (stringifyNode css node) (valueBrowserhacks st2)\<rparr>
                         else st2)
              in if isProperty env ''z-index'' property
                 then Inr (Skip, st3\<lparr>zindex := cc_push (stringifyNode css node) (zindex st3)\<rparr>)
                 else if isProperty env ''font'' property
                 then (if isSystemFont env node then Inr (Continue, st3)
                       else Inr (Continue, push_font_parts (destructure env node (stringifyNode css)) st3))
                 else if isProperty env ''font-size'' property
                 then (if \<not> isSystemFont env node
                       then Inr (Continue, st3\<lparr>fontSizes := cc_push (stringifyNode css node) (fontSizes st3)\<rparr>)
                       else Inr (Continue, st3))
                 else if isProperty env ''font-family'' property
                 then (if \<not> isSystemFont env node
                       then Inr (Continue, st3\<lparr>fontFamilies := cc_push (stringifyNode css node) (fontFamilies st3)\<rparr>)
                       else Inr (Continue, st3))
                 else if isProperty env ''line-height'' property
                 then walk_value env css property node
                        (st3\<lparr>lineHeights := cc_push (stringifyNode css node) (lineHeights st3)\<rparr>)
                 else if isProperty env ''transition'' property \<or> isProperty env ''animation'' property
                 then (let times = fst (analyzeAnimation env ns (stringifyNode css));
                           fns = snd (analyzeAnimation env ns (stringifyNode css));
                           st4 = st3\<lparr>durations := fold cc_push times (durations st3)\<rparr>
                       in Inr (Continue, st4\<lparr>timingFunctions := fold cc_push fns (timingFunctions st4)\<rparr>))
                 else if isProperty env ''animation-duration'' property
                         \<or> isProperty env ''transition-duration'' property
                 then Inr (Continue, st3\<lparr>durations := fold cc_push (value_items css node ns) (durations st3)\<rparr>)
                 else if isProperty env ''transition-timing-function'' property
                         \<or> isProperty env ''animation-timing-function'' property
                 then Inr (Continue,
                        st3\<lparr>timingFunctions := fold cc_push (value_items css node ns) (timingFunctions st3)\<rparr>)
                 else if isProperty env ''text-shadow'' property
                 then walk_value env css property node
                        (if \<not> isValueKeyword env node
                         then st3\<lparr>textShadows := cc_push (stringifyNode css node) (textShadows st3)\<rparr>
                         else st3)
                 else if isProperty env ''box-shadow'' property
                 then walk_value env css property node
                        (if \<not> isValueKeyword env node
                         then st3\<lparr>boxShadows := cc_push (stringifyNode css node) (boxShadows st3)\<rparr>
                         else st3)
                 else walk_value env css property node st3)))"

subsection \<open>Declarations\<close>

definition visit_Declaration ::
  "helpers \<Rightarrow> string \<Rightarrow> ctx \<Rightarrow> node \<Rightarrow> important \<Rightarrow> string \<Rightarrow> state \<Rightarrow> error + signal \<times> state"
where
  "visit_Declaration env css c node imp property st =
     (if this_atrulePrelude c then Inr (Skip, st)
      else
        (let st1 = st\<lparr>totalDeclarations := totalDeclarations st + 1,
                      uniqueDeclarations := set_add (stringifyNode css node) (uniqueDeclarations st)\<rparr>;
             st2 = (if imp = Flag True
                    then (let st' = st1\<lparr>importantDeclarations := importantDeclarations st1 + 1\<rparr>
                          in if in_keyframes env c
                             then st'\<lparr>importantsInKeyframes := importantsInKeyframes st' + 1\<rparr>
                             else st')
                    else st1);
             st3 = st2\<lparr>properties := cc_push property (properties st2)\<rparr>
         in if hasVendorPrefix env property
            then Inr (Continue,
                   st3\<lparr>propertyVendorPrefixes := cc_push property (propertyVendorPrefixes st3),
                       propertyComplexities := agg_push 2 (propertyComplexities st3)\<rparr>)
            else if isHack env property
            then Inr (Continue,
                   st3\<lparr>propertyHacks := cc_push property (propertyHacks st3),
                       propertyComplexities := agg_push 2 (propertyComplexities st3)\<rparr>)
            else if isCustom env property
            then (let st4 = st3\<lparr>customProperties := cc_push property (customProperties st3),
                               propertyComplexities := agg_push 2 (propertyComplexities st3)\<rparr>
                  in Inr (Continue,
                       if imp = Flag True
                       then st4\<lparr>importantCustomProperties := cc_push property (importantCustomProperties st4)\<rparr>
                       else st4))
            else Inr (Continue, st3\<lparr>propertyComplexities := agg_push 1 (propertyComplexities st3)\<rparr>)))"

subsection \<open>The visitor of the main walk\<close>

fun visitor :: "helpers \<Rightarrow> string \<Rightarrow> ctx \<Rightarrow> node \<Rightarrow> state \<Rightarrow> error + signal \<times> state" where
  "visitor env css c (Atrule l name prelude block) st = visit_Atrule env css name prelude block st"
| "visitor env css c (Rule l prelude block) st = visit_Rule prelude block st"
| "visitor env css c (Selector l ns) st = visit_Selector env css c (Selector l ns) st"
| "visitor env css c (Dimension l v unit) st = visit_Dimension env c unit st"
| "visitor env css c (Url l v) st = visit_Url env v st"
| "visitor env css c (Value l ns) st = visit_Value env css c (Value l ns) ns st"
| "visitor env css c (Declaration l imp property v) st =
     visit_Declaration env css c (Declaration l imp property v) imp property st"
| "visitor env css c n st = Inr (Continue, st)"

section \<open>The report\<close>

text \<open>
  The report is the object literal that \<open>analyze\<close> returns. A field is named by its key
  and the key of the object that holds it. \<open>Object.assign(x.count(), {...})\<close> is the record
  of \<open>count()\<close> extended by the keys of the second object.
\<close>

type_synonym counted = "(string, nat) count_result"

record counted_ratio = "(string, nat) count_result" +
  part_ratio :: rat

record counted_hacks = "(string, nat) count_result" +
  browserhacks :: counted

definition assign_ratio :: "counted \<Rightarrow> rat \<Rightarrow> counted_ratio" where
  "assign_ratio x r =
     \<lparr>count_total = count_total x, count_totalUnique = count_totalUnique x,
      count_unique = count_unique x, count_uniquenessRatio = count_uniquenessRatio x,
      part_ratio = r\<rparr>"

definition assign_hacks :: "counted \<Rightarrow> counted \<Rightarrow> counted_hacks" where
  "assign_hacks x h =
     \<lparr>count_total = count_total x, count_totalUnique = count_totalUnique x,
      count_unique = count_unique x, count_uniquenessRatio = count_uniquenessRatio x,
      browserhacks = h\<rparr>"

record comments_report =
  comments_total :: nat
  comments_size :: nat

record embedded_size_report =
  size_total :: nat
  size_ratio :: rat

record embedded_types_report =
  types_total :: nat
  types_totalUnique :: nat
  types_uniquenessRatio :: rat
  types_unique :: "(string \<times> embed_item) list"

record embeddedContent_report = "(string, nat) count_result" +
  embeddedContent_size :: embedded_size_report
  embeddedContent_types :: embedded_types_report

record stylesheet_report =
  sourceLinesOfCode :: nat
  linesOfCode :: int
  stylesheet_size :: nat
  stylesheet_comments :: comments_report
  stylesheet_embeddedContent :: embeddedContent_report

record fontface_report =
  fontface_total :: nat
  fontface_totalUnique :: nat
  fontface_unique :: "(string \<times> string) list list"
  fontface_uniquenessRatio :: rat

record keyframes_report = "(string, nat) count_result" +
  keyframes_prefixed :: counted_ratio

record atrules_report =
  atrules_fontface :: fontface_report
  atrules_import :: counted
  atrules_media :: counted_hacks
  atrules_charset :: counted
  atrules_supports :: counted_hacks
  atrules_keyframes :: keyframes_report
  atrules_container :: counted
  atrules_layer :: counted

record empty_report =
  empty_total :: nat
  empty_ratio :: rat

record rule_stat_report = aggregate_result +
  stat_items :: "int list"
  stat_unique :: "(int \<times> nat) list"
  stat_totalUnique :: nat
  stat_uniquenessRatio :: rat

definition rule_stat :: "AggregateCollection \<Rightarrow> rule_stat_report" where
  "rule_stat c =
     (let a = aggregate c; u = cc_count (cc_of_array (toArray c))
      in \<lparr>agg_count = agg_count a, agg_sum = agg_sum a, agg_mean = agg_mean a, agg_min = agg_min a,
          agg_max = agg_max a, agg_median = agg_median a, agg_mode = agg_mode a,
          stat_items = toArray c, stat_unique = count_unique u,
          stat_totalUnique = count_totalUnique u, stat_uniquenessRatio = count_uniquenessRatio u\<rparr>)"

record rules_report =
  rules_total :: nat
  rules_empty :: empty_report
  rules_sizes :: rule_stat_report
  rules_selectors :: rule_stat_report
  rules_declarations :: rule_stat_report

record specificity_report =
  specificity_min :: Specificity
  specificity_max :: Specificity
  specificity_sum :: "int \<times> int \<times> int"
  specificity_mean :: "rat \<times> rat \<times> rat"
  specificity_mode :: "int option \<times> int option \<times> int option"
  specificity_median :: "rat option \<times> rat option \<times> rat option"
  specificity_items :: "Specificity list"
  specificity_unique :: "(string \<times> nat) list"
  specificity_totalUnique :: nat
  specificity_uniquenessRatio :: rat

record complexity_report = aggregate_result +
  complexity_total :: nat
  complexity_totalUnique :: nat
  complexity_unique :: "(int \<times> nat) list"
  complexity_uniquenessRatio :: rat
  complexity_items :: "int list"

definition complexity_stat :: "AggregateCollection \<Rightarrow> complexity_report" where
  "complexity_stat c =
     (let a = aggregate c; u = cc_count (cc_of_array (toArray c))
      in \<lparr>agg_count = agg_count a, agg_sum = agg_sum a, agg_mean = agg_mean a, agg_min = agg_min a,
          agg_max = agg_max a, agg_median = agg_median a, agg_mode = agg_mode a,
          complexity_total = count_total u, complexity_totalUnique = count_totalUnique u,
          complexity_unique = count_unique u, complexity_uniquenessRatio = count_uniquenessRatio u,
          complexity_items = toArray c\<rparr>)"

record selectors_report =
  selectors_total :: nat
  selectors_totalUnique :: nat
  selectors_uniquenessRatio :: rat
  selectors_specificity :: specificity_report
  selectors_complexity :: complexity_report
  selectors_id :: counted_ratio
  selectors_accessibility :: counted_ratio
  selectors_keyframes :: counted
  selectors_prefixed :: counted_ratio

record unique_report =
  unique_total :: nat
  unique_ratio :: rat

record inKeyframes_report =
  inKeyframes_total :: nat
  inKeyframes_ratio :: rat

record importants_report =
  importants_total :: nat
  importants_ratio :: rat
  importants_inKeyframes :: inKeyframes_report

record declarations_report =
  declarations_total :: nat
  declarations_totalUnique :: nat
  declarations_uniquenessRatio :: rat
  declarations_unique :: unique_report
  declarations_importants :: importants_report

record custom_report = "(string, nat) count_result" +
  custom_ratio :: rat
  custom_importants :: counted_ratio

record properties_report = "(string, nat) count_result" +
  properties_prefixed :: counted_ratio
  properties_custom :: custom_report
  properties_browserhacks :: counted_ratio
  properties_complexity :: aggregate_result

record colors_report = "(string, context_item) count_result" +
  colors_formats :: counted

record animations_report =
  animations_durations :: counted
  animations_timingFunctions :: counted

record values_report =
  values_colors :: colors_report
  values_gradients :: counted
  values_fontFamilies :: counted
  values_fontSizes :: counted
  values_lineHeights :: counted
  values_zindexes :: counted
  values_textShadows :: counted
  values_boxShadows :: counted
  values_animations :: animations_report
  values_prefixes :: counted
  values_browserhacks :: counted
  values_units :: "(string, context_item) count_result"

record meta_report =
  parseTime :: int
  analyzeTime :: int
  meta_total :: int

record report =
  report_stylesheet :: stylesheet_report
  report_atrules :: atrules_report
  report_rules :: rules_report
  report_selectors :: selectors_report
  report_declarations :: declarations_report
  report_properties :: properties_report
  report_values :: values_report
  report_meta :: meta_report

subsection \<open>Assembling the report\<close>

definition stylesheet_of :: "string \<Rightarrow> int \<Rightarrow> state \<Rightarrow> stylesheet_report" where
  "stylesheet_of css lines st =
     (let embeddedContent = cc_count (embeds st)
      in \<lparr>sourceLinesOfCode =
            totalAtRules st + agg_size (selectorComplexities st) + totalDeclarations st
              + cc_size (keyframeSelectors st),
          linesOfCode = lines,
          stylesheet_size = length css,
          stylesheet_comments = \<lparr>comments_total = totalComments st, comments_size = commentsSize st\<rparr>,
          stylesheet_embeddedContent =
            \<lparr>count_total = count_total embeddedContent,
             count_totalUnique = count_totalUnique embeddedContent,
             count_unique = count_unique embeddedContent,
             count_uniquenessRatio = count_uniquenessRatio embeddedContent,
             embeddedContent_size =
               \<lparr>size_total = embedSize st, size_ratio = ratio (embedSize st) (length css)\<rparr>,
             embeddedContent_types =
               \<lparr>types_total = embedTypes_total st,
                types_totalUnique = length (embedTypes_unique st),
                types_uniquenessRatio = ratio (length (embedTypes_unique st)) (embedTypes_total st),
                types_unique = embedTypes_unique st\<rparr>\<rparr>\<rparr>)"

definition atrules_of :: "state \<Rightarrow> atrules_report" where
  "atrules_of st =
     \<lparr>atrules_fontface =
        \<lparr>fontface_total = length (fontfaces st),
         fontface_totalUnique = length (fontfaces st),
         fontface_unique = fontfaces st,
         fontface_uniquenessRatio = (if length (fontfaces st) = 0 then 0 else 1)\<rparr>,
      atrules_import = cc_count (imports' st),
      atrules_media = assign_hacks (cc_count (medias st)) (cc_count (mediaBrowserhacks st)),
      atrules_charset = cc_count (charsets st),
      atrules_supports = assign_hacks (cc_count (supports st)) (cc_count (supportsBrowserhacks st)),
      atrules_keyframes =
        (let k = cc_count (keyframes st)
         in \<lparr>count_total = count_total k, count_totalUnique = count_totalUnique k,
             count_unique = count_unique k, count_uniquenessRatio = count_uniquenessRatio k,
             keyframes_prefixed =
               assign_ratio (cc_count (prefixedKeyframes st))
                 (ratio (cc_size (prefixedKeyframes st)) (cc_size (keyframes st)))\<rparr>),
      atrules_container = cc_count (containers st),
      atrules_layer = cc_count (layers st)\<rparr>"

definition rules_of :: "state \<Rightarrow> rules_report" where
  "rules_of st =
     \<lparr>rules_total = totalRules st,
      rules_empty = \<lparr>empty_total = emptyRules st, empty_ratio = ratio (emptyRules st) (totalRules st)\<rparr>,
      rules_sizes = rule_stat (ruleSizes st),
      rules_selectors = rule_stat (selectorsPerRule st),
      rules_declarations = rule_stat (declarationsPerRule st)\<rparr>"

definition selectors_of :: "state \<Rightarrow> selectors_report" where
  "selectors_of st =
     (let totalSelectors = agg_size (selectorComplexities st);
          specificitiesA = aggregate (specificityA st);
          specificitiesB = aggregate (specificityB st);
          specificitiesC = aggregate (specificityC st);
          uniqueSpecificitiesCount = cc_count (uniqueSpecificities st);
          totalUniqueSelectors = length (uniqueSelectors st)
      in \<lparr>selectors_total = totalSelectors,
          selectors_totalUnique = totalUniqueSelectors,
          selectors_uniquenessRatio = ratio totalUniqueSelectors totalSelectors,
          selectors_specificity =
            \<lparr>specificity_min = (case minSpecificity st of None \<Rightarrow> (0, 0, 0) | Some m \<Rightarrow> m),
             specificity_max = (case maxSpecificity st of None \<Rightarrow> (0, 0, 0) | Some m \<Rightarrow> m),
             specificity_sum = (agg_sum specificitiesA, agg_sum specificitiesB, agg_sum specificitiesC),
             specificity_mean = (agg_mean specificitiesA, agg_mean specificitiesB, agg_mean specificitiesC),
             specificity_mode = (agg_mode specificitiesA, agg_mode specificitiesB, agg_mode specificitiesC),
             specificity_median =
               (agg_median specificitiesA, agg_median specificitiesB, agg_median specificitiesC),
             specificity_items = specificities st,
             specificity_unique = count_unique uniqueSpecificitiesCount,
             specificity_totalUnique = count_totalUnique uniqueSpecificitiesCount,
             specificity_uniquenessRatio = count_uniquenessRatio uniqueSpecificitiesCount\<rparr>,
          selectors_complexity = complexity_stat (selectorComplexities st),
          selectors_id = assign_ratio (cc_count (ids st)) (ratio (cc_size (ids st)) totalSelectors),
          selectors_accessibility =
            assign_ratio (cc_count (a11y st)) (ratio (cc_size (a11y st)) totalSelectors),
          selectors_keyframes = cc_count (keyframeSelectors st),
          selectors_prefixed =
            assign_ratio (cc_count (prefixedSelectors st))
              (ratio (cc_size (prefixedSelectors st)) totalSelectors)\<rparr>)"

definition declarations_of :: "state \<Rightarrow> declarations_report" where
  "declarations_of st =
     (let totalUniqueDeclarations = length (uniqueDeclarations st)
      in \<lparr>declarations_total = totalDeclarations st,
          declarations_totalUnique = totalUniqueDeclarations,
          declarations_uniquenessRatio = ratio totalUniqueDeclarations (totalDeclarations st),
          declarations_unique =
            \<lparr>unique_total = totalUniqueDeclarations,
             unique_ratio = ratio totalUniqueDeclarations (totalDeclarations st)\<rparr>,
          declarations_importants =
            \<lparr>importants_total = importantDeclarations st,
             importants_ratio = ratio (importantDeclarations st) (totalDeclarations st),
             importants_inKeyframes =
               \<lparr>inKeyframes_total = importantsInKeyframes st,
                inKeyframes_ratio = ratio (importantsInKeyframes st) (importantDeclarations st)\<rparr>\<rparr>\<rparr>)"

definition properties_of :: "state \<Rightarrow> properties_report" where
  "properties_of st =
     (let p = cc_count (properties st); cu = cc_count (customProperties st)
      in \<lparr>count_total = count_total p, count_totalUnique = count_totalUnique p,
          count_unique = count_unique p, count_uniquenessRatio = count_uniquenessRatio p,
          properties_prefixed =
            assign_ratio (cc_count (propertyVendorPrefixes st))
              (ratio (cc_size (propertyVendorPrefixes st)) (cc_size (properties st))),
          properties_custom =
            \<lparr>count_total = count_total cu, count_totalUnique = count_totalUnique cu,
             count_unique = count_unique cu, count_uniquenessRatio = count_uniquenessRatio cu,
             custom_ratio = ratio (cc_size (customProperties st)) (cc_size (properties st)),
             custom_importants =
               assign_ratio (cc_count (importantCustomProperties st))
                 (ratio (cc_size (importantCustomProperties st)) (cc_size (customProperties st)))\<rparr>,
          properties_browserhacks =
            assign_ratio (cc_count (propertyHacks st))
              (ratio (cc_size (propertyHacks st)) (cc_size (properties st))),
          properties_complexity = aggregate (propertyComplexities st)\<rparr>)"

definition values_of :: "state \<Rightarrow> values_report" where
  "values_of st =
     \<lparr>values_colors =
        (let k = ctx_count (colors st)
         in \<lparr>count_total = count_total k, count_totalUnique = count_totalUnique k,
             count_unique = count_unique k, count_uniquenessRatio = count_uniquenessRatio k,
             colors_formats = cc_count (colorFormats st)\<rparr>),
      values_gradients = cc_count (gradients st),
      values_fontFamilies = cc_count (fontFamilies st),
      values_fontSizes = cc_count (fontSizes st),
      values_lineHeights = cc_count (lineHeights st),
      values_zindexes = cc_count (zindex st),
      values_textShadows = cc_count (textShadows st),
      values_boxShadows = cc_count (boxShadows st),
      values_animations =
        \<lparr>animations_durations = cc_count (durations st),
         animations_timingFunctions = cc_count (timingFunctions st)\<rparr>,
      values_prefixes = cc_count (vendorPrefixedValues st),
      values_browserhacks = cc_count (valueBrowserhacks st),
      values_units = ctx_count (units st)\<rparr>"

definition make_report :: "string \<Rightarrow> int \<Rightarrow> state \<Rightarrow> meta_report \<Rightarrow> report" where
  "make_report css lines st meta =
     \<lparr>report_stylesheet = stylesheet_of css lines st,
      report_atrules = atrules_of st,
      report_rules = rules_of st,
      report_selectors = selectors_of st,
      report_declarations = declarations_of st,
      report_properties = properties_of st,
      report_values = values_of st,
      report_meta = meta\<rparr>"

subsection \<open>\<open>analyze\<close>\<close>

text \<open>
  \<open>now k\<close> is what the \<open>k\<close>-th call of \<open>Date.now()\<close> returns during the analysis (there
  are five: \<open>start\<close>, \<open>startParse\<close>, \<open>startAnalysis\<close> and the two in \<open>__meta__\<close>).
  \<open>run\<close> is the walk over the tree the parser returned, from the accumulators as the
  comment callback left them. An exception that a visitor raises ends \<open>analyze\<close>.
\<close>

definition run :: "helpers \<Rightarrow> string \<Rightarrow> error + state" where
  "run env css =
     (case parse env css of
        (ast, comments) \<Rightarrow>
          walk (visitor env css) root_ctx ast (fold onComment comments initial_state))"

definition analyze :: "helpers \<Rightarrow> (nat \<Rightarrow> int) \<Rightarrow> string \<Rightarrow> error + report" where
  "analyze env now css =
     (let start = now 0;
          startParse = now 1;
          ast = fst (parse env css);
          startAnalysis = now 2;
          lines = end_line (node_loc ast) - start_line (node_loc ast) + 1
      in case run env css of
           Inl e \<Rightarrow> Inl e
         | Inr st \<Rightarrow>
             Inr (make_report css lines st
                    \<lparr>parseTime = startAnalysis - startParse,
                     analyzeTime = now 3 - startAnalysis,
                     meta_total = now 4 - start\<rparr>))"

section \<open>Collaborators for concrete inputs\<close>

text \<open>
  Modelled from the spec: one concrete set of collaborators, on which the theorems below are
  evaluated at concrete inputs. The theorems themselves hold for every set of
  collaborators. Each follows what sections 4.4, 4.5 and 6 say the collaborator computes, on
  the node kinds of the examples; the lookup sets are excerpts. The parser is given by its
  answer (tree and comments) for the source text of the example.
\<close>

definition ends_with :: "string \<Rightarrow> string \<Rightarrow> bool" where
  "ends_with base s = (length base \<le> length s \<and> drop (length s - length base) s = base)"

definition starts_with :: "string \<Rightarrow> string \<Rightarrow> bool" where
  "starts_with base s = (take (length base) s = base)"

text \<open>Section 4.5: lexicographic compare over (a, b, c), ascending.\<close>

definition compare_ascending :: "Specificity \<Rightarrow> Specificity \<Rightarrow> int" where
  "compare_ascending x y =
     (case x of (a1, b1, c1) \<Rightarrow> case y of (a2, b2, c2) \<Rightarrow>
        if a1 \<noteq> a2 then int a1 - int a2
        else if b1 \<noteq> b2 then int b1 - int b2
        else int c1 - int c2)"

fun kind_of :: "node \<Rightarrow> string" where
  "kind_of (Node k _ _) = k"
| "kind_of _ = []"

definition count_kinds :: "string list \<Rightarrow> node \<Rightarrow> nat" where
  "count_kinds ks n = length (filter (\<lambda>m. kind_of m \<in> set ks) (subnodes n))"

text \<open>Section 1: id count, class/attribute/pseudo-class count, type/pseudo-element
  count, here over the parts of the selector itself.\<close>

definition count_specificity :: "node \<Rightarrow> Specificity" where
  "count_specificity n =
     (count_kinds [''IdSelector''] n,
      count_kinds [''ClassSelector'', ''AttributeSelector'', ''PseudoClassSelector''] n,
      count_kinds [''TypeSelector'', ''PseudoElementSelector''] n)"

fun single_identifier :: "node \<Rightarrow> string option" where
  "single_identifier (Value _ [Identifier _ name]) = Some name"
| "single_identifier _ = None"

definition bare_keyword :: "string list \<Rightarrow> node \<Rightarrow> bool" where
  "bare_keyword ks n = (case single_identifier n of None \<Rightarrow> False | Some name \<Rightarrow> name \<in> set ks)"

definition vendor_prefixed :: "string \<Rightarrow> bool" where
  "vendor_prefixed s =
     (starts_with ''-webkit-'' s \<or> starts_with ''-moz-'' s \<or> starts_with ''-ms-'' s \<or> starts_with ''-o-'' s)"

definition sample_helpers :: "node \<Rightarrow> string list \<Rightarrow> helpers" where
  "sample_helpers ast comments =
     \<lparr>parse = (\<lambda>css. (ast, comments)),
      calculate = count_specificity,
      isSupportsBrowserhack = (\<lambda>n. False),
      isMediaBrowserhack = (\<lambda>n. False),
      getComplexity = (\<lambda>n. (int (length (subnodes n)), False)),
      isAccessibility = (\<lambda>n. 0 < count_kinds [''AttributeSelector''] n),
      compareSpecificity = compare_ascending,
      colorFunctions = {''rgb'', ''rgba'', ''hsl'', ''hsla''},
      colorKeywords = {''transparent'', ''currentcolor''},
      namedColors = {''red'', ''green'', ''blue'', ''lightgoldenrodyellow''},
      systemColors = {''canvas'', ''canvastext'', ''linktext''},
      destructure = (\<lambda>n render. \<lparr>font_size = None, line_height = None, font_family = None\<rparr>),
      isSystemFont = bare_keyword [''caption'', ''icon'', ''menu'', ''message-box'', ''small-caption'', ''status-bar''],
      isValueKeyword = bare_keyword [''auto'', ''inherit'', ''initial'', ''unset'', ''revert'', ''none''],
      analyzeAnimation = (\<lambda>ns render. ([], [])),
      isAstVendorPrefixed = (\<lambda>n. False),
      strEquals = (\<lambda>a b. a = b),
      startsWith = starts_with,
      endsWith = ends_with,
      hasVendorPrefix = vendor_prefixed,
      isCustom = starts_with ''--'',
      isHack = (\<lambda>s. starts_with ''*'' s \<or> starts_with ''_'' s),
      isProperty = (\<lambda>a b. a = b),
      getEmbedType = (\<lambda>s. takeWhile (\<lambda>ch. ch \<noteq> CHR '';'' \<and> ch \<noteq> CHR '','') (drop 5 s)),
      isIe9Hack = (\<lambda>n. False)\<rparr>"

definition src :: "nat \<Rightarrow> nat \<Rightarrow> loc" where
  "src a b = \<lparr>start_offset = a, end_offset = b, start_line = 1, end_line = 1\<rparr>"

text \<open>The source \<open>:is(a, b){}\<close> and its tree.\<close>

definition is_css :: string where
  "is_css = '':is(a, b){}''"

definition is_selector :: node where
  "is_selector =
     Selector (src 0 9)
       [Node ''PseudoClassSelector'' (src 0 9)
          [SelectorList (src 4 8)
             [Selector (src 4 5) [Node ''TypeSelector'' (src 4 5) []],
              Selector (src 7 8) [Node ''TypeSelector'' (src 7 8) []]]]]"

definition is_ast :: node where
  "is_ast =
     StyleSheet (src 0 11) [Rule (src 0 11) (SelectorList (src 0 9) [is_selector]) (Block (src 9 11) [])]"

text \<open>The source \<open>@keyframes k{to{top:0}}\<close> and its tree.\<close>

definition keyframes_css :: string where
  "keyframes_css = ''@keyframes k{to{top:0}}''"

definition keyframes_selector :: node where
  "keyframes_selector = Selector (src 13 15) [Node ''TypeSelector'' (src 13 15) []]"

definition keyframes_ast :: node where
  "keyframes_ast =
     StyleSheet (src 0 23)
       [Atrule (src 0 23) ''keyframes''
          (Some (AtrulePrelude (src 11 12) [Identifier (src 11 12) ''k'']))
          (Some (Block (src 12 23)
             [Rule (src 13 22) (SelectorList (src 13 15) [keyframes_selector])
                (Block (src 15 22)
                   [Declaration (src 16 21) (Flag False) ''top''
                      (Value (src 20 21) [Node ''Number'' (src 20 21) []])])]))]"

text \<open>The source \<open>@supports (display:flex){}\<close> and its tree.\<close>

definition supports_css :: string where
  "supports_css = ''@supports (display:flex){}''"

definition supports_declaration :: node where
  "supports_declaration =
     Declaration (src 11 23) (Flag False) ''display'' (Value (src 19 23) [Identifier (src 19 23) ''flex''])"

definition supports_ast :: node where
  "supports_ast =
     StyleSheet (src 0 26)
       [Atrule (src 0 26) ''supports''
          (Some (AtrulePrelude (src 10 24) [Node ''Parentheses'' (src 10 24) [supports_declaration]]))
          (Some (Block (src 24 26) []))]"

text \<open>The source \<open>a{color:red}\<close> and its tree.\<close>

definition red_css :: string where
  "red_css = ''a{color:red}''"

definition red_ast :: node where
  "red_ast =
     StyleSheet (src 0 12)
       [Rule (src 0 12)
          (SelectorList (src 0 1) [Selector (src 0 1) [Node ''TypeSelector'' (src 0 1) []]])
          (Block (src 1 12)
             [Declaration (src 2 11) (Flag False) ''color'' (Value (src 8 11) [Identifier (src 8 11) ''red''])])]"

text \<open>The source \<open>@font-face{font-family:x}@font-face{font-family:x}\<close> and its tree.\<close>

definition fontface_css :: string where
  "fontface_css = ''@font-face{font-family:x}@font-face{font-family:x}''"

definition fontface_rule :: "nat \<Rightarrow> node" where
  "fontface_rule k =
     Atrule (src k (k + 25)) ''font-face'' None
       (Some (Block (src (k + 10) (k + 25))
          [Declaration (src (k + 11) (k + 24)) (Flag False) ''font-family''
             (Value (src (k + 23) (k + 24)) [Identifier (src (k + 23) (k + 24)) ''x''])]))"

definition fontface_ast :: node where
  "fontface_ast = StyleSheet (src 0 50) [fontface_rule 0, fontface_rule 25]"

text \<open>The source \<open>a{b:url(data:x/y,z)}\<close> and its tree.\<close>

definition url_css :: string where
  "url_css = ''a{b:url(data:x/y,z)}''"

definition url_ast :: node where
  "url_ast =
     StyleSheet (src 0 20)
       [Rule (src 0 20)
          (SelectorList (src 0 1) [Selector (src 0 1) [Node ''TypeSelector'' (src 0 1) []]])
          (Block (src 1 20)
             [Declaration (src 2 19) (Flag False) ''b'' (Value (src 4 19) [Url (src 4 19) ''data:x/y,z''])])]"

section \<open>Notions the properties are stated with\<close>

subsection \<open>The visits of a walk\<close>

text \<open>
  \<open>traced f\<close> is the visitor \<open>f\<close> that also notes each node it is called on, with the
  context of the call. \<open>visited env css\<close> lists the calls of the engine's visitor during
  the analysis of \<open>css\<close>, in order.
\<close>

definition traced ::
  "(ctx \<Rightarrow> node \<Rightarrow> 's \<Rightarrow> error + signal \<times> 's) \<Rightarrow>
   ctx \<Rightarrow> node \<Rightarrow> 's \<times> (ctx \<times> node) list \<Rightarrow> error + signal \<times> 's \<times> (ctx \<times> node) list"
where
  "traced f c n p =
     (case f c n (fst p) of
        Inl e \<Rightarrow> Inl e
      | Inr (sg, s') \<Rightarrow> Inr (sg, s', snd p @ [(c, n)]))"

definition run_traced :: "helpers \<Rightarrow> string \<Rightarrow> error + state \<times> (ctx \<times> node) list" where
  "run_traced env css =
     (case parse env css of
        (ast, comments) \<Rightarrow>
          walk (traced (visitor env css)) root_ctx ast (fold onComment comments initial_state, []))"

definition visited :: "helpers \<Rightarrow> string \<Rightarrow> (ctx \<times> node) list" where
  "visited env css = (case run_traced env css of Inl e \<Rightarrow> [] | Inr (st, tr) \<Rightarrow> tr)"

fun is_Atrule :: "ctx \<times> node \<Rightarrow> bool" where
  "is_Atrule (c, Atrule _ _ _ _) = True"
| "is_Atrule _ = False"

fun is_fontface :: "ctx \<times> node \<Rightarrow> bool" where
  "is_fontface (c, Atrule _ name _ _) = (name = ''font-face'')"
| "is_fontface _ = False"

text \<open>A visit of a selector that is not inside a keyframes at-rule.\<close>

fun plain_selector :: "helpers \<Rightarrow> ctx \<times> node \<Rightarrow> bool" where
  "plain_selector env (c, Selector _ _) = (\<not> in_keyframes env c)"
| "plain_selector env _ = False"

text \<open>The specificity tuples of the visited non-keyframe selectors, in the order of the
  visits.\<close>

definition selector_samples :: "helpers \<Rightarrow> string \<Rightarrow> Specificity list" where
  "selector_samples env css = map (calculate env \<circ> snd) (filter (plain_selector env) (visited env css))"

subsection \<open>The running minimum and maximum, in the words of the spec\<close>

text \<open>
  Section 9: the field called min is replaced by the candidate when
  \<open>compare(current, candidate) < 0\<close>, the field called max when
  \<open>compare(current, candidate) > 0\<close>; a field that has no value yet takes the candidate.
\<close>

fun update_min :: "(Specificity \<Rightarrow> Specificity \<Rightarrow> int) \<Rightarrow> Specificity option \<Rightarrow> Specificity \<Rightarrow> Specificity option" where
  "update_min cmp None candidate = Some candidate"
| "update_min cmp (Some current) candidate = Some (if cmp current candidate < 0 then candidate else current)"

fun update_max :: "(Specificity \<Rightarrow> Specificity \<Rightarrow> int) \<Rightarrow> Specificity option \<Rightarrow> Specificity \<Rightarrow> Specificity option" where
  "update_max cmp None candidate = Some candidate"
| "update_max cmp (Some current) candidate = Some (if cmp current candidate > 0 then candidate else current)"

subsection \<open>The accumulators that the value case leaves alone\<close>

definition without_colors :: "state \<Rightarrow> state" where
  "without_colors st = st\<lparr>colors := [], colorFormats := [], gradients := []\<rparr>"

definition without_values :: "state \<Rightarrow> state" where
  "without_values st =
     (without_colors st)\<lparr>vendorPrefixedValues := [], valueBrowserhacks := [], zindex := [],
        textShadows := [], boxShadows := [], fontFamilies := [], fontSizes := [],
        lineHeights := [], timingFunctions := [], durations := []\<rparr>"

text \<open>The source \<open>#a,b{}\<close> and its tree.\<close>

definition pair_css :: string where
  "pair_css = ''#a,b{}''"

definition pair_ast :: node where
  "pair_ast =
     StyleSheet (src 0 6)
       [Rule (src 0 6)
          (SelectorList (src 0 4)
             [Selector (src 0 2) [Node ''IdSelector'' (src 0 2) []],
              Selector (src 3 4) [Node ''TypeSelector'' (src 3 4) []]])
          (Block (src 4 6) [])]"

subsection \<open>Well-formed accumulators\<close>

text \<open>A frequency counter holds no key with count 0, a context counter no primary key
  with total 0.\<close>

definition cc_ok :: "'k CountableCollection \<Rightarrow> bool" where
  "cc_ok c = list_all (\<lambda>(k, n). 0 < n) c"

definition ctx_ok :: "ContextCollection \<Rightarrow> bool" where
  "ctx_ok c = list_all (\<lambda>(k, i). 0 < item_total i) c"

text \<open>The accumulators that the value case updates.\<close>

definition values_ok :: "state \<Rightarrow> bool" where
  "values_ok st =
     (cc_ok (vendorPrefixedValues st) \<and> cc_ok (valueBrowserhacks st) \<and> cc_ok (zindex st) \<and>
      cc_ok (textShadows st) \<and> cc_ok (boxShadows st) \<and> cc_ok (fontFamilies st) \<and>
      cc_ok (fontSizes st) \<and> cc_ok (lineHeights st) \<and> cc_ok (timingFunctions st) \<and>
      cc_ok (durations st) \<and> ctx_ok (colors st) \<and> cc_ok (colorFormats st) \<and>
      cc_ok (gradients st))"

text \<open>The other accumulators, by the case of the visitor that updates them, with the order
  between a counter of parts and the counter of the whole that the report divides it by.\<close>

definition atrules_ok :: "state \<Rightarrow> bool" where
  "atrules_ok st =
     (cc_ok (layers st) \<and> cc_ok (imports' st) \<and> cc_ok (medias st) \<and>
      cc_ok (mediaBrowserhacks st) \<and> cc_ok (charsets st) \<and> cc_ok (supports st) \<and>
      cc_ok (supportsBrowserhacks st) \<and> cc_ok (keyframes st) \<and> cc_ok (prefixedKeyframes st) \<and>
      cc_ok (containers st) \<and>
      cc_size (prefixedKeyframes st) \<le> cc_size (keyframes st))"

definition rules_ok :: "state \<Rightarrow> bool" where
  "rules_ok st = (emptyRules st \<le> totalRules st)"

definition selectors_ok :: "state \<Rightarrow> bool" where
  "selectors_ok st =
     (cc_ok (keyframeSelectors st) \<and> cc_ok (prefixedSelectors st) \<and>
      cc_ok (uniqueSpecificities st) \<and> cc_ok (ids st) \<and> cc_ok (a11y st) \<and>
      length (uniqueSelectors st) \<le> agg_size (selectorComplexities st) \<and>
      cc_size (ids st) \<le> agg_size (selectorComplexities st) \<and>
      cc_size (a11y st) \<le> agg_size (selectorComplexities st) \<and>
      cc_size (prefixedSelectors st) \<le> agg_size (selectorComplexities st))"

definition embeds_ok :: "state \<Rightarrow> bool" where
  "embeds_ok st =
     (cc_ok (embeds st) \<and> ctx_ok (units st) \<and>
      length (embedTypes_unique st) \<le> embedTypes_total st)"

definition declarations_ok :: "state \<Rightarrow> bool" where
  "declarations_ok st =
     (cc_ok (importantCustomProperties st) \<and> cc_ok (properties st) \<and> cc_ok (propertyHacks st) \<and>
      cc_ok (propertyVendorPrefixes st) \<and> cc_ok (customProperties st) \<and>
      length (uniqueDeclarations st) \<le> totalDeclarations st \<and>
      importantDeclarations st \<le> totalDeclarations st \<and>
      importantsInKeyframes st \<le> importantDeclarations st \<and>
      cc_size (propertyVendorPrefixes st) \<le> cc_size (properties st) \<and>
      cc_size (customProperties st) \<le> cc_size (properties st) \<and>
      cc_size (propertyHacks st) \<le> cc_size (properties st) \<and>
      cc_size (importantCustomProperties st) \<le> cc_size (customProperties st))"

definition accumulators_ok :: "state \<Rightarrow> bool" where
  "accumulators_ok st =
     (atrules_ok st \<and> rules_ok st \<and> selectors_ok st \<and> embeds_ok st \<and> declarations_ok st \<and>
      values_ok st)"

subsection \<open>The url values of a tree\<close>

text \<open>The number of characters in the values of the url nodes of a tree. The parser
  takes the value of a url node from the source text and the url nodes do not overlap, so
  for the tree of a source text this number is at most the length of the text.\<close>

fun url_size :: "node \<Rightarrow> nat" where
  "url_size (Url l v) = length v"
| "url_size (StyleSheet l ns) = sum_list (map url_size ns)"
| "url_size (Atrule l name prelude block) =
     (case prelude of None \<Rightarrow> 0 | Some p \<Rightarrow> url_size p) + (case block of None \<Rightarrow> 0 | Some b \<Rightarrow> url_size b)"
| "url_size (AtrulePrelude l ns) = sum_list (map url_size ns)"
| "url_size (Rule l prelude block) = url_size prelude + url_size block"
| "url_size (SelectorList l ns) = sum_list (map url_size ns)"
| "url_size (Selector l ns) = sum_list (map url_size ns)"
| "url_size (Block l ns) = sum_list (map url_size ns)"
| "url_size (Declaration l imp property v) = url_size v"
| "url_size (Value l ns) = sum_list (map url_size ns)"
| "url_size (Function l name ns) = sum_list (map url_size ns)"
| "url_size (Node k l ns) = sum_list (map url_size ns)"
| "url_size _ = 0"

fun own_url_size :: "node \<Rightarrow> nat" where
  "own_url_size (Url l v) = length v"
| "own_url_size _ = 0"

subsection \<open>The ratio and total fields of the report\<close>

text \<open>
  Every field of the report that is called \<open>ratio\<close> or \<open>uniquenessRatio\<close>, each with the
  number the engine divides by to get it. The denominator of the \<open>uniquenessRatio\<close> of a
  \<open>count()\<close> is the total of that count, which is the sum of its per-key counts.
\<close>

definition uniqueness :: "('k, 'v, 'z) count_result_scheme \<Rightarrow> rat \<times> nat" where
  "uniqueness x = (count_uniquenessRatio x, count_total x)"

definition stylesheet_ratios :: "stylesheet_report \<Rightarrow> (rat \<times> nat) list" where
  "stylesheet_ratios s =
     [uniqueness (stylesheet_embeddedContent s),
      (size_ratio (embeddedContent_size (stylesheet_embeddedContent s)), stylesheet_size s),
      (types_uniquenessRatio (embeddedContent_types (stylesheet_embeddedContent s)),
       types_total (embeddedContent_types (stylesheet_embeddedContent s)))]"

definition atrules_ratios :: "atrules_report \<Rightarrow> (rat \<times> nat) list" where
  "atrules_ratios a =
     [(fontface_uniquenessRatio (atrules_fontface a), fontface_total (atrules_fontface a)),
      uniqueness (atrules_import a),
      uniqueness (atrules_media a), uniqueness (browserhacks (atrules_media a)),
      uniqueness (atrules_charset a),
      uniqueness (atrules_supports a), uniqueness (browserhacks (atrules_supports a)),
      uniqueness (atrules_keyframes a), uniqueness (keyframes_prefixed (atrules_keyframes a)),
      (part_ratio (keyframes_prefixed (atrules_keyframes a)), count_total (atrules_keyframes a)),
      uniqueness (atrules_container a),
      uniqueness (atrules_layer a)]"

definition rules_ratios :: "rules_report \<Rightarrow> (rat \<times> nat) list" where
  "rules_ratios r =
     [(empty_ratio (rules_empty r), rules_total r),
      (stat_uniquenessRatio (rules_sizes r), cc_size (stat_unique (rules_sizes r))),
      (stat_uniquenessRatio (rules_selectors r), cc_size (stat_unique (rules_selectors r))),
      (stat_uniquenessRatio (rules_declarations r), cc_size (stat_unique (rules_declarations r)))]"

definition selectors_ratios :: "selectors_report \<Rightarrow> (rat \<times> nat) list" where
  "selectors_ratios s =
     [(selectors_uniquenessRatio s, selectors_total s),
      (specificity_uniquenessRatio (selectors_specificity s),
       cc_size (specificity_unique (selectors_specificity s))),
      (complexity_uniquenessRatio (selectors_complexity s), complexity_total (selectors_complexity s)),
      uniqueness (selectors_id s), (part_ratio (selectors_id s), selectors_total s),
      uniqueness (selectors_accessibility s), (part_ratio (selectors_accessibility s), selectors_total s),
      uniqueness (selectors_keyframes s),
      uniqueness (selectors_prefixed s), (part_ratio (selectors_prefixed s), selectors_total s)]"

definition declarations_ratios :: "declarations_report \<Rightarrow> (rat \<times> nat) list" where
  "declarations_ratios d =
     [(declarations_uniquenessRatio d, declarations_total d),
      (unique_ratio (declarations_unique d), declarations_total d),
      (importants_ratio (declarations_importants d), declarations_total d),
      (inKeyframes_ratio (importants_inKeyframes (declarations_importants d)),
       importants_total (declarations_importants d))]"

definition properties_ratios :: "properties_report \<Rightarrow> (rat \<times> nat) list" where
  "properties_ratios p =
     [uniqueness p,
      uniqueness (properties_prefixed p), (part_ratio (properties_prefixed p), count_total p),
      uniqueness (properties_custom p), (custom_ratio (properties_custom p), count_total p),
      uniqueness (custom_importants (properties_custom p)),
      (part_ratio (custom_importants (properties_custom p)), count_total (properties_custom p)),
      uniqueness (properties_browserhacks p), (part_ratio (properties_browserhacks p), count_total p)]"

definition values_ratios :: "values_report \<Rightarrow> (rat \<times> nat) list" where
  "values_ratios v =
     [uniqueness (values_colors v), uniqueness (colors_formats (values_colors v)),
      uniqueness (values_gradients v), uniqueness (values_fontFamilies v),
      uniqueness (values_fontSizes v), uniqueness (values_lineHeights v),
      uniqueness (values_zindexes v), uniqueness (values_textShadows v),
      uniqueness (values_boxShadows v),
      uniqueness (animations_durations (values_animations v)),
      uniqueness (animations_timingFunctions (values_animations v)),
      uniqueness (values_prefixes v), uniqueness (values_browserhacks v),
      uniqueness (values_units v)]"

definition ratio_fields :: "report \<Rightarrow> (rat \<times> nat) list" where
  "ratio_fields r =
     stylesheet_ratios (report_stylesheet r) @ atrules_ratios (report_atrules r) @
     rules_ratios (report_rules r) @ selectors_ratios (report_selectors r) @
     declarations_ratios (report_declarations r) @ properties_ratios (report_properties r) @
     values_ratios (report_values r)"

text \<open>A ratio lies in the closed interval from 0 to 1 and is 0 when its denominator is.\<close>

definition ratio_ok :: "rat \<times> nat \<Rightarrow> bool" where
  "ratio_ok p = (0 \<le> fst p \<and> fst p \<le> 1 \<and> (snd p = 0 \<longrightarrow> fst p = 0))"

text \<open>
  Every field called \<open>total\<close> or \<open>totalUnique\<close> in the sections \<open>stylesheet\<close>, \<open>atrules\<close>,
  \<open>rules\<close>, \<open>selectors\<close>, \<open>declarations\<close>, \<open>properties\<close> and \<open>values\<close> of the report, the
  per-key totals of the two context counters included.
\<close>

definition totals :: "('k, 'v, 'z) count_result_scheme \<Rightarrow> nat list" where
  "totals x = [count_total x, count_totalUnique x]"

definition total_fields :: "report \<Rightarrow> nat list" where
  "total_fields r =
     (let s = report_stylesheet r; a = report_atrules r; ru = report_rules r; se = report_selectors r;
          d = report_declarations r; p = report_properties r; v = report_values r
      in [comments_total (stylesheet_comments s)] @ totals (stylesheet_embeddedContent s) @
         [size_total (embeddedContent_size (stylesheet_embeddedContent s)),
          types_total (embeddedContent_types (stylesheet_embeddedContent s)),
          types_totalUnique (embeddedContent_types (stylesheet_embeddedContent s)),
          fontface_total (atrules_fontface a), fontface_totalUnique (atrules_fontface a)] @
         totals (atrules_import a) @ totals (atrules_media a) @ totals (browserhacks (atrules_media a)) @
         totals (atrules_charset a) @ totals (atrules_supports a) @
         totals (browserhacks (atrules_supports a)) @ totals (atrules_keyframes a) @
         totals (keyframes_prefixed (atrules_keyframes a)) @ totals (atrules_container a) @
         totals (atrules_layer a) @
         [rules_total ru, empty_total (rules_empty ru), stat_totalUnique (rules_sizes ru),
          stat_totalUnique (rules_selectors ru), stat_totalUnique (rules_declarations ru),
          selectors_total se, selectors_totalUnique se,
          specificity_totalUnique (selectors_specificity se),
          complexity_total (selectors_complexity se), complexity_totalUnique (selectors_complexity se)] @
         totals (selectors_id se) @ totals (selectors_accessibility se) @ totals (selectors_keyframes se) @
         totals (selectors_prefixed se) @
         [declarations_total d, declarations_totalUnique d, unique_total (declarations_unique d),
          importants_total (declarations_importants d),
          inKeyframes_total (importants_inKeyframes (declarations_importants d))] @
         totals p @ totals (properties_prefixed p) @ totals (properties_custom p) @
         totals (custom_importants (properties_custom p)) @ totals (properties_browserhacks p) @
         totals (values_colors v) @ map (item_total \<circ> snd) (count_unique (values_colors v)) @
         totals (colors_formats (values_colors v)) @ totals (values_gradients v) @
         totals (values_fontFamilies v) @ totals (values_fontSizes v) @ totals (values_lineHeights v) @
         totals (values_zindexes v) @ totals (values_textShadows v) @ totals (values_boxShadows v) @
         totals (animations_durations (values_animations v)) @
         totals (animations_timingFunctions (values_animations v)) @ totals (values_prefixes v) @
         totals (values_browserhacks v) @ totals (values_units v) @
         map (item_total \<circ> snd) (count_unique (values_units v)))"

subsection \<open>Clocks and the empty source\<close>

definition empty_ast :: node where
  "empty_ast = StyleSheet (src 0 0) []"

text \<open>A clock that stands still during the analysis, and one on which the last reading
  of \<open>Date.now()\<close> comes five milliseconds after the others.\<close>

definition steady_clock :: "nat \<Rightarrow> int" where
  "steady_clock k = 0"

definition late_clock :: "nat \<Rightarrow> int" where
  "late_clock k = (if k = 4 then 5 else 0)"

subsection \<open>The accumulators by the case that updates them\<close>

text \<open>Each case of the visitor updates accumulators of its own. \<open>without_atrules\<close> and its
  like reset the accumulators of one case, so that two states that differ in these only
  are equal after the reset.\<close>

definition without_atrules :: "state \<Rightarrow> state" where
  "without_atrules st =
     st\<lparr>totalAtRules := 0, fontfaces := [], layers := [], imports' := [], medias := [],
        mediaBrowserhacks := [], charsets := [], supports := [], supportsBrowserhacks := [],
        keyframes := [], prefixedKeyframes := [], containers := []\<rparr>"

definition without_rules :: "state \<Rightarrow> state" where
  "without_rules st =
     st\<lparr>totalRules := 0, emptyRules := 0, ruleSizes := [], selectorsPerRule := [],
        declarationsPerRule := []\<rparr>"

definition without_selectors :: "state \<Rightarrow> state" where
  "without_selectors st =
     st\<lparr>keyframeSelectors := [], uniqueSelectors := [], prefixedSelectors := [],
        maxSpecificity := None, minSpecificity := None, specificityA := [], specificityB := [],
        specificityC := [], uniqueSpecificities := [], selectorComplexities := [],
        specificities := [], ids := [], a11y := []\<rparr>"

definition without_embeds :: "state \<Rightarrow> state" where
  "without_embeds st =
     st\<lparr>embeds := [], embedSize := 0, embedTypes_total := 0, embedTypes_unique := [], units := []\<rparr>"

definition without_declarations :: "state \<Rightarrow> state" where
  "without_declarations st =
     st\<lparr>uniqueDeclarations := [], totalDeclarations := 0, importantDeclarations := 0,
        importantsInKeyframes := 0, importantCustomProperties := [], properties := [],
        propertyHacks := [], propertyVendorPrefixes := [], customProperties := [],
        propertyComplexities := []\<rparr>"

section \<open>Properties of the walk\<close>

declare walk.simps [simp del]

text \<open>A property of the accumulators that every call of the visitor preserves holds after
  the walk.\<close>

lemma walk_invariant:
  "(\<And>c n s sg s'. P s \<Longrightarrow> f c n s = Inr (sg, s') \<Longrightarrow> P s') \<Longrightarrow> P s \<Longrightarrow> walk f c n s = Inr s' \<Longrightarrow> P s'"
  "(\<And>c n s sg s'. P s \<Longrightarrow> f c n s = Inr (sg, s') \<Longrightarrow> P s') \<Longrightarrow> P s \<Longrightarrow> walk_list f c ns s = Inr s' \<Longrightarrow> P s'"
proof (induction f c n s and f c ns s arbitrary: s' and s' rule: walk_walk_list.induct)
  case (1 f c n s)
  note step = "1.prems"(1)
  show ?case
  proof (cases "f c n s")
    case (Inl e)
    with "1.prems" show ?thesis by (simp add: walk.simps)
  next
    case (Inr p)
    obtain sg s1 where p: "p = (sg, s1)" by (cases p)
    have P1: "P s1" using step [OF "1.prems"(2)] Inr p by simp
    show ?thesis
    proof (cases sg)
      case Continue
      with "1.prems" Inr p have "walk_list f (enter c n) (subnodes n) s1 = Inr s'"
        by (simp add: walk.simps)
      with "1.IH" [OF Inr p [symmetric] Continue step P1] show ?thesis by simp
    next
      case Skip
      with "1.prems" Inr p P1 show ?thesis by (simp add: walk.simps)
    qed
  qed
next
  case (2 f c s)
  then show ?case by simp
next
  case (3 f c n ns s)
  note step = "3.prems"(1)
  show ?case
  proof (cases "walk f c n s")
    case (Inl e)
    with "3.prems" show ?thesis by simp
  next
    case (Inr s1)
    have P1: "P s1" using "3.IH"(1) [OF step "3.prems"(2) Inr] .
    from "3.prems" Inr have "walk_list f c ns s1 = Inr s'" by simp
    with "3.IH"(2) [OF Inr step P1] show ?thesis by simp
  qed
qed

lemma walk_skip: "f c n s = Inr (Skip, s') \<Longrightarrow> walk f c n s = Inr s'"
  by (simp add: walk.simps)

text \<open>The definitions that evaluate the engine on the concrete inputs.\<close>

lemmas eval_defs =
  sample_helpers_def src_def stringifyNode_def stringifyNodePlain_def substring_def trim_def
  isWhiteSpace_def in_keyframes_def ends_with_def starts_with_def root_ctx_def

lemmas run_defs = run_def run_traced_def visited_def traced_def walk.simps visit_Atrule_def visit_Rule_def
  visit_Selector_def visit_Declaration_def visit_Value_def visit_Dimension_def visit_Url_def walk_value_def
  num_children_def Let_def

lemmas sample_defs =
  eval_defs count_specificity_def count_kinds_def compare_ascending_def bare_keyword_def
  vendor_prefixed_def set_add_def agg_push_def obj_set_def specificity_key_def initial_state_def

section \<open>Properties of the accumulators\<close>

lemma cc_size_push [simp]: "cc_size (cc_push k c) = Suc (cc_size c)"
  by (induction c) (auto simp: cc_size_def)

lemma cc_ok_Nil [simp]: "cc_ok []"
  by (simp add: cc_ok_def)

lemma cc_ok_push [simp]: "cc_ok c \<Longrightarrow> cc_ok (cc_push k c)"
  by (induction c) (auto simp: cc_ok_def)

lemma cc_ok_fold_push [simp]: "cc_ok c \<Longrightarrow> cc_ok (fold (\<lambda>x. cc_push (g x)) xs c)"
  by (induction xs arbitrary: c) simp_all

lemma cc_ok_fold_push' [simp]: "cc_ok c \<Longrightarrow> cc_ok (fold cc_push xs c)"
  by (induction xs arbitrary: c) simp_all

lemma cc_ok_push_truthy [simp]: "cc_ok c \<Longrightarrow> cc_ok (push_truthy x c)"
  by (cases x) simp_all

lemma cc_ok_of_array [simp]: "cc_ok (cc_of_array xs)"
proof -
  have "cc_ok c \<Longrightarrow> cc_ok (foldl (\<lambda>c x. cc_push x c) c xs)" for c :: "'a CountableCollection"
    by (induction xs arbitrary: c) simp_all
  then show ?thesis by (simp add: cc_of_array_def)
qed

lemma cc_ok_length: "cc_ok c \<Longrightarrow> length c \<le> cc_size c"
  by (induction c) (auto simp: cc_ok_def cc_size_def)

lemma ctx_ok_Nil [simp]: "ctx_ok []"
  by (simp add: ctx_ok_def)

lemma ctx_ok_push [simp]: "ctx_ok c \<Longrightarrow> ctx_ok (ctx_push k x c)"
  by (induction c) (auto simp: ctx_ok_def)

lemma ctx_ok_length: "ctx_ok c \<Longrightarrow> length c \<le> ctx_size c"
  by (induction c) (auto simp: ctx_ok_def ctx_size_def)

lemma length_set_add: "length (set_add x xs) \<le> Suc (length xs)"
  by (simp add: set_add_def)

lemma length_embed_update: "length (embed_update ty sz m) \<le> Suc (length m)"
  by (induction m) auto

lemma ratio_ok_ratio: "a \<le> b \<Longrightarrow> ratio_ok (ratio a b, b)"
  by (simp add: ratio_ok_def ratio_def divide_le_eq_1)

lemma ratio_ok_cc_count: "cc_ok c \<Longrightarrow> ratio_ok (uniqueness (cc_count c))"
  by (simp add: uniqueness_def cc_count_def ratio_ok_ratio cc_ok_length)

lemma ratio_ok_ctx_count: "ctx_ok c \<Longrightarrow> ratio_ok (uniqueness (ctx_count c))"
  by (simp add: uniqueness_def ctx_count_def ratio_ok_ratio ctx_ok_length)

section \<open>The visits of a walk\<close>

lemma walk_traced:
  "map_sum id fst (walk (traced f) c n p) = walk f c n (fst p)"
  "map_sum id fst (walk_list (traced f) c ns p) = walk_list f c ns (fst p)"
proof (induction "traced f" c n p and "traced f" c ns p rule: walk_walk_list.induct)
  case (1 c n s)
  show ?case
  proof (cases "f c n (fst s)")
    case (Inl e)
    then show ?thesis by (simp add: walk.simps traced_def)
  next
    case (Inr q)
    obtain sg s1 where q: "q = (sg, s1)" by (cases q)
    show ?thesis
    proof (cases sg)
      case Continue
      have t: "traced f c n s = Inr (Continue, s1, snd s @ [(c, n)])"
        using Inr q Continue by (simp add: traced_def)
      from "1.hyps" [OF t refl] t Inr q Continue show ?thesis by (simp add: walk.simps)
    next
      case Skip
      with Inr q show ?thesis by (simp add: walk.simps traced_def)
    qed
  qed
next
  case (2 c s)
  then show ?case by simp
next
  case (3 c n ns s)
  show ?case
  proof (cases "walk (traced f) c n s")
    case (Inl e)
    with "3.hyps"(1) show ?thesis by (cases "walk f c n (fst s)") auto
  next
    case (Inr s1)
    with "3.hyps"(1) have "walk f c n (fst s) = Inr (fst s1)" by (cases "walk f c n (fst s)") auto
    with "3.hyps"(2) [OF Inr] Inr show ?thesis by simp
  qed
qed

lemma run_traced_run: "map_sum id fst (run_traced env css) = run env css"
  by (simp add: run_traced_def run_def walk_traced split: prod.splits)

lemma run_visited: "run env css = Inr st \<Longrightarrow> run_traced env css = Inr (st, visited env css)"
  using run_traced_run [of env css] by (cases "run_traced env css") (auto simp: visited_def)

text \<open>A property of the accumulators and the visits so far that every call preserves
  holds after the analysis.\<close>

lemma run_invariant:
  assumes step: "\<And>c n s tr sg s'. P (s, tr) \<Longrightarrow> visitor env css c n s = Inr (sg, s') \<Longrightarrow> P (s', tr @ [(c, n)])"
    and init: "\<And>comments. P (fold onComment comments initial_state, [])"
    and run: "run env css = Inr st"
  shows "P (st, visited env css)"
proof -
  obtain ast comments where p: "parse env css = (ast, comments)" by (cases "parse env css")
  from run_visited [OF run] p
  have w: "walk (traced (visitor env css)) root_ctx ast (fold onComment comments initial_state, []) =
      Inr (st, visited env css)"
    by (simp add: run_traced_def)
  have step': "\<And>c n s sg s'. P s \<Longrightarrow> traced (visitor env css) c n s = Inr (sg, s') \<Longrightarrow> P s'"
    using step by (auto simp: traced_def split: sum.splits prod.splits)
  from walk_invariant(1) [where P = P, OF step' init w] show ?thesis .
qed

lemma fold_onComment:
  "fold onComment comments st =
     st\<lparr>totalComments := totalComments st + length comments,
        commentsSize := commentsSize st + sum_list (map length comments)\<rparr>"
  by (induction comments arbitrary: st) (simp_all add: onComment_def)

section \<open>The accumulators that the value case leaves alone\<close>

lemma without_colors_update [simp]:
  "without_colors (st\<lparr>colors := x\<rparr>) = without_colors st"
  "without_colors (st\<lparr>colorFormats := y\<rparr>) = without_colors st"
  "without_colors (st\<lparr>gradients := y\<rparr>) = without_colors st"
  by (simp_all add: without_colors_def)

lemma without_values_update [simp]:
  "without_values (st\<lparr>colors := x\<rparr>) = without_values st"
  "without_values (st\<lparr>colorFormats := y\<rparr>) = without_values st"
  "without_values (st\<lparr>gradients := y\<rparr>) = without_values st"
  "without_values (st\<lparr>vendorPrefixedValues := y\<rparr>) = without_values st"
  "without_values (st\<lparr>valueBrowserhacks := y\<rparr>) = without_values st"
  "without_values (st\<lparr>zindex := y\<rparr>) = without_values st"
  "without_values (st\<lparr>textShadows := y\<rparr>) = without_values st"
  "without_values (st\<lparr>boxShadows := y\<rparr>) = without_values st"
  "without_values (st\<lparr>fontFamilies := y\<rparr>) = without_values st"
  "without_values (st\<lparr>fontSizes := y\<rparr>) = without_values st"
  "without_values (st\<lparr>lineHeights := y\<rparr>) = without_values st"
  "without_values (st\<lparr>timingFunctions := y\<rparr>) = without_values st"
  "without_values (st\<lparr>durations := y\<rparr>) = without_values st"
  by (simp_all add: without_values_def without_colors_def)

lemma value_visitor_frame:
  "value_visitor env css property c n s = Inr (sg, s') \<Longrightarrow> without_colors s' = without_colors s"
  by (cases n) (auto simp: record_color_def Let_def split: if_splits)

lemma walk_value_frame:
  assumes "walk_value env css property n st = Inr (sg, st')"
  shows "without_colors st' = without_colors st"
proof -
  from assms have w: "walk (value_visitor env css property) root_ctx n st = Inr st'"
    by (auto simp: walk_value_def split: sum.splits)
  have step: "\<And>c n s sg s'. without_colors s = without_colors st \<Longrightarrow>
      value_visitor env css property c n s = Inr (sg, s') \<Longrightarrow> without_colors s' = without_colors st"
    using value_visitor_frame by metis
  from walk_invariant(1) [where P = "\<lambda>s. without_colors s = without_colors st", OF step refl w]
  show ?thesis .
qed

lemma walk_value_frame_values:
  "walk_value env css property n s = Inr (sg, s') \<Longrightarrow> without_values s = x \<Longrightarrow> without_values s' = x"
  using walk_value_frame [of env css property n s sg s'] by (simp add: without_values_def)

lemma visit_Value_frame:
  assumes "visit_Value env css c node ns st = Inr (sg, st')"
  shows "without_values st' = without_values st"
  using assms
  by (auto simp: visit_Value_def Let_def push_font_parts_def
      split: if_splits option.splits prod.splits important.splits
      elim!: walk_value_frame_values)

section \<open>The selector and declaration cases in closed form\<close>

lemma visit_Selector_plain:
  assumes "\<not> in_keyframes env c"
  shows "visit_Selector env css c node st =
    Inr (Skip,
      st\<lparr>ids := (if 0 < fst (calculate env node) then cc_push (stringifyNode css node) (ids st) else ids st),
         a11y := (if isAccessibility env node then cc_push (stringifyNode css node) (a11y st) else a11y st),
         prefixedSelectors :=
           (if snd (getComplexity env node) then cc_push (stringifyNode css node) (prefixedSelectors st)
            else prefixedSelectors st),
         uniqueSelectors := set_add (stringifyNode css node) (uniqueSelectors st),
         selectorComplexities := agg_push (fst (getComplexity env node)) (selectorComplexities st),
         uniqueSpecificities := cc_push (specificity_key (calculate env node)) (uniqueSpecificities st),
         specificityA := agg_push (int (fst (calculate env node))) (specificityA st),
         specificityB := agg_push (int (fst (snd (calculate env node)))) (specificityB st),
         specificityC := agg_push (int (snd (snd (calculate env node)))) (specificityC st),
         minSpecificity := update_min (compareSpecificity env) (minSpecificity st) (calculate env node),
         maxSpecificity := update_max (compareSpecificity env) (maxSpecificity st) (calculate env node),
         specificities := specificities st @ [calculate env node]\<rparr>)"
  using assms
  by (cases "0 < fst (calculate env node)"; cases "isAccessibility env node";
      cases "snd (getComplexity env node)"; cases "minSpecificity st"; cases "maxSpecificity st")
     (simp_all add: visit_Selector_def Let_def)

lemma visit_Selector_keyframes:
  "in_keyframes env c \<Longrightarrow>
   visit_Selector env css c node st =
     Inr (Skip, st\<lparr>keyframeSelectors := cc_push (stringifyNode css node) (keyframeSelectors st)\<rparr>)"
  by (simp add: visit_Selector_def)

lemma visit_Declaration_eq:
  assumes "\<not> this_atrulePrelude c"
  shows "visit_Declaration env css c node imp property st =
    Inr (Continue,
      st\<lparr>totalDeclarations := totalDeclarations st + 1,
         uniqueDeclarations := set_add (stringifyNode css node) (uniqueDeclarations st),
         importantDeclarations := (if imp = Flag True then importantDeclarations st + 1 else importantDeclarations st),
         importantsInKeyframes :=
           (if imp = Flag True \<and> in_keyframes env c then importantsInKeyframes st + 1
            else importantsInKeyframes st),
         properties := cc_push property (properties st),
         propertyVendorPrefixes :=
           (if hasVendorPrefix env property then cc_push property (propertyVendorPrefixes st)
            else propertyVendorPrefixes st),
         propertyHacks :=
           (if \<not> hasVendorPrefix env property \<and> isHack env property then cc_push property (propertyHacks st)
            else propertyHacks st),
         customProperties :=
           (if \<not> hasVendorPrefix env property \<and> \<not> isHack env property \<and> isCustom env property
            then cc_push property (customProperties st) else customProperties st),
         importantCustomProperties :=
           (if \<not> hasVendorPrefix env property \<and> \<not> isHack env property \<and> isCustom env property
               \<and> imp = Flag True
            then cc_push property (importantCustomProperties st) else importantCustomProperties st),
         propertyComplexities :=
           agg_push (if hasVendorPrefix env property \<or> isHack env property \<or> isCustom env property
                     then 2 else 1) (propertyComplexities st)\<rparr>)"
  using assms
  by (cases "imp = Flag True"; cases "in_keyframes env c"; cases "hasVendorPrefix env property";
      cases "isHack env property"; cases "isCustom env property")
     (simp_all add: visit_Declaration_def Let_def)

section \<open>What one call of the visitor changes\<close>

lemma without_values_fields:
  "minSpecificity (without_values st) = minSpecificity st"
  "maxSpecificity (without_values st) = maxSpecificity st"
  "totalAtRules (without_values st) = totalAtRules st"
  "fontfaces (without_values st) = fontfaces st"
  by (simp_all add: without_values_def without_colors_def)

lemma visit_Value_effect:
  assumes "visit_Value env css c node ns st = Inr (sg, st')"
  shows "minSpecificity st' = minSpecificity st" "maxSpecificity st' = maxSpecificity st"
    "totalAtRules st' = totalAtRules st" "fontfaces st' = fontfaces st"
  using arg_cong [OF visit_Value_frame [OF assms], of minSpecificity]
    arg_cong [OF visit_Value_frame [OF assms], of maxSpecificity]
    arg_cong [OF visit_Value_frame [OF assms], of totalAtRules]
    arg_cong [OF visit_Value_frame [OF assms], of fontfaces]
  by (simp_all add: without_values_fields)

lemma visit_Atrule_effect:
  assumes "visit_Atrule env css name prelude block st = Inr (sg, st')"
  shows "minSpecificity st' = minSpecificity st" "maxSpecificity st' = maxSpecificity st"
    "totalAtRules st' = totalAtRules st + 1"
    "length (fontfaces st') = length (fontfaces st) + (if name = ''font-face'' then 1 else 0)"
  using assms
  by (auto simp: visit_Atrule_def Let_def split: if_splits option.splits)

lemma visit_Selector_effect:
  assumes "visit_Selector env css c node st = Inr (sg, st')"
  shows "minSpecificity st' =
      (if in_keyframes env c then minSpecificity st
       else update_min (compareSpecificity env) (minSpecificity st) (calculate env node))"
    "maxSpecificity st' =
      (if in_keyframes env c then maxSpecificity st
       else update_max (compareSpecificity env) (maxSpecificity st) (calculate env node))"
    "totalAtRules st' = totalAtRules st" "fontfaces st' = fontfaces st"
  using assms
  by (cases "in_keyframes env c"; simp add: visit_Selector_plain visit_Selector_keyframes; force)+

lemma visit_other_effect:
  "visit_Rule prelude block st = Inr (sg, st') \<Longrightarrow>
     minSpecificity st' = minSpecificity st \<and> maxSpecificity st' = maxSpecificity st \<and>
     totalAtRules st' = totalAtRules st \<and> fontfaces st' = fontfaces st"
  "visit_Dimension env c unit st = Inr (sg, st') \<Longrightarrow>
     minSpecificity st' = minSpecificity st \<and> maxSpecificity st' = maxSpecificity st \<and>
     totalAtRules st' = totalAtRules st \<and> fontfaces st' = fontfaces st"
  "visit_Url env v st = Inr (sg, st') \<Longrightarrow>
     minSpecificity st' = minSpecificity st \<and> maxSpecificity st' = maxSpecificity st \<and>
     totalAtRules st' = totalAtRules st \<and> fontfaces st' = fontfaces st"
  "visit_Declaration env css c node imp property st = Inr (sg, st') \<Longrightarrow>
     minSpecificity st' = minSpecificity st \<and> maxSpecificity st' = maxSpecificity st \<and>
     totalAtRules st' = totalAtRules st \<and> fontfaces st' = fontfaces st"
  by (auto simp: visit_Rule_def visit_Dimension_def visit_Url_def visit_Declaration_def Let_def
      split: if_splits option.splits prod.splits)

lemma visitor_effect:
  assumes "visitor env css c n st = Inr (sg, st')"
  shows "minSpecificity st' =
      (if plain_selector env (c, n)
       then update_min (compareSpecificity env) (minSpecificity st) (calculate env n)
       else minSpecificity st)"
    "maxSpecificity st' =
      (if plain_selector env (c, n)
       then update_max (compareSpecificity env) (maxSpecificity st) (calculate env n)
       else maxSpecificity st)"
    "totalAtRules st' = totalAtRules st + (if is_Atrule (c, n) then 1 else 0)"
    "length (fontfaces st') = length (fontfaces st) + (if is_fontface (c, n) then 1 else 0)"
  using assms
  by (cases n;
      auto dest: visit_Atrule_effect visit_other_effect visit_Selector_effect visit_Value_effect)+

section \<open>From the accumulators to the report\<close>

lemma analyze_run:
  assumes "analyze env now css = Inr r"
  obtains st where "run env css = Inr st"
    and "r = make_report css (end_line (node_loc (fst (parse env css))) - start_line (node_loc (fst (parse env css))) + 1) st
               \<lparr>parseTime = now 2 - now 1, analyzeTime = now 3 - now 2, meta_total = now 4 - now 0\<rparr>"
  using assms by (auto simp: analyze_def Let_def split: sum.splits)

lemma analyze_of_run:
  "run env css = Inr st \<Longrightarrow>
   analyze env now css =
     Inr (make_report css
            (end_line (node_loc (fst (parse env css))) - start_line (node_loc (fst (parse env css))) + 1) st
            \<lparr>parseTime = now 2 - now 1, analyzeTime = now 3 - now 2, meta_total = now 4 - now 0\<rparr>)"
  by (simp add: analyze_def Let_def)

section \<open>Pruning of selectors and of prelude declarations\<close>

text \<open>
  C5. A declaration in an at-rule prelude is skipped with its subtree: the walk over
  it returns the accumulators as they were, so it adds nothing to \<open>declarations.total\<close>, to
  the set of unique declarations or to any accumulator of the properties.
\<close>

theorem prelude_declaration_skipped:
  "this_atrulePrelude c \<Longrightarrow>
   visitor env css c (Declaration l imp property v) st = Inr (Skip, st) \<and>
   walk (visitor env css) c (Declaration l imp property v) st = Inr st"
  by (simp add: walk.simps visit_Declaration_def)

theorem prelude_declaration_skipped_witness:
  "this_atrulePrelude
     (enter (enter root_ctx (Atrule (src 0 26) ''supports'' None None)) (AtrulePrelude (src 10 24) [])) \<and>
   walk (visitor (sample_helpers supports_ast []) supports_css)
     (enter (enter root_ctx (Atrule (src 0 26) ''supports'' None None)) (AtrulePrelude (src 10 24) []))
     supports_declaration initial_state = Inr initial_state"
  using prelude_declaration_skipped
    [of "enter (enter root_ctx (Atrule (src 0 26) ''supports'' None None)) (AtrulePrelude (src 10 24) [])"
       "sample_helpers supports_ast []" supports_css "src 11 23" "Flag False" "''display''"
       "Value (src 19 23) [Identifier (src 19 23) ''flex'']" initial_state]
  by (simp add: supports_declaration_def)

text \<open>
  C4. A selector whose nearest enclosing at-rule has a name ending in \<open>keyframes\<close> is
  pushed to the keyframe-selector counter and pruned: the visitor returns the skip signal,
  the walk over the selector changes no other accumulator, and the result does not depend
  on the specificity calculator, which is not called.
\<close>

theorem keyframe_selector_only_counted:
  "this_atrule c = Some name \<Longrightarrow> endsWith env ''keyframes'' name \<Longrightarrow>
   visitor env css c (Selector l ns) st =
     Inr (Skip, st\<lparr>keyframeSelectors := cc_push (stringifyNode css (Selector l ns)) (keyframeSelectors st)\<rparr>) \<and>
   walk (visitor env css) c (Selector l ns) st =
     Inr (st\<lparr>keyframeSelectors := cc_push (stringifyNode css (Selector l ns)) (keyframeSelectors st)\<rparr>) \<and>
   walk (visitor (env\<lparr>calculate := f, getComplexity := g, isAccessibility := h\<rparr>) css) c (Selector l ns) st =
     walk (visitor env css) c (Selector l ns) st"
  by (simp add: walk.simps visit_Selector_def in_keyframes_def)

theorem keyframe_selector_only_counted_witness:
  "this_atrule (enter root_ctx (Atrule (src 0 23) ''keyframes'' None None)) = Some ''keyframes'' \<and>
   endsWith (sample_helpers keyframes_ast []) ''keyframes'' ''keyframes'' \<and>
   walk (visitor (sample_helpers keyframes_ast []) keyframes_css)
     (enter root_ctx (Atrule (src 0 23) ''keyframes'' None None)) keyframes_selector initial_state =
     Inr (initial_state\<lparr>keyframeSelectors := [(''to'', 1)]\<rparr>)"
  using keyframe_selector_only_counted
    [of "enter root_ctx (Atrule (src 0 23) ''keyframes'' None None)" "''keyframes''"
       "sample_helpers keyframes_ast []" keyframes_css "src 13 15"
       "[Node ''TypeSelector'' (src 13 15) []]" initial_state]
  by (simp add: keyframes_selector_def eval_defs keyframes_css_def initial_state_def)

text \<open>
  C3. A selector that is not inside a keyframes at-rule is recorded and pruned: the
  visitor returns the skip signal, so the walk over the selector ends with the accumulators
  the visitor returned, whatever the selector contains, and these hold exactly one more
  specificity tuple and one more complexity sample, those of the whole selector.
\<close>

theorem selector_recorded_once:
  "\<not> in_keyframes env c \<Longrightarrow>
   \<exists>st'. visitor env css c (Selector l ns) st = Inr (Skip, st') \<and>
         walk (visitor env css) c (Selector l ns) st = Inr st' \<and>
         specificities st' = specificities st @ [calculate env (Selector l ns)] \<and>
         selectorComplexities st' = selectorComplexities st @ [fst (getComplexity env (Selector l ns))] \<and>
         specificityA st' = specificityA st @ [int (fst (calculate env (Selector l ns)))] \<and>
         specificityB st' = specificityB st @ [int (fst (snd (calculate env (Selector l ns))))] \<and>
         specificityC st' = specificityC st @ [int (snd (snd (calculate env (Selector l ns))))] \<and>
         cc_size (uniqueSpecificities st') = cc_size (uniqueSpecificities st) + 1 \<and>
         keyframeSelectors st' = keyframeSelectors st"
  by (simp add: walk.simps visit_Selector_def Let_def agg_push_def cc_size_push)

theorem selector_recorded_once_witness:
  "\<not> in_keyframes (sample_helpers is_ast []) root_ctx \<and>
   (\<exists>st'. walk (visitor (sample_helpers is_ast []) is_css) root_ctx is_selector initial_state = Inr st' \<and>
      specificities st' = [(0, 1, 0)] \<and> selectorComplexities st' = [1] \<and>
      uniqueSelectors st' = ['':is(a, b)''])"
  using selector_recorded_once
    [of "sample_helpers is_ast []" root_ctx is_css "src 0 9"
       "[Node ''PseudoClassSelector'' (src 0 9)
           [SelectorList (src 4 8)
              [Selector (src 4 5) [Node ''TypeSelector'' (src 4 5) []],
               Selector (src 7 8) [Node ''TypeSelector'' (src 7 8) []]]]]" initial_state]
  by (auto simp add: is_selector_def is_css_def sample_defs visit_Selector_def Let_def)

section \<open>Color keywords in a value\<close>

text \<open>
  C8. In the nested walk over a value, an identifier whose name has fewer than 3 or more
  than 20 characters is pruned and records nothing. An identifier of 3 to 20 characters is
  looked up in the named colors, then in the color keywords, then in the system colors: the
  first set that has it records one color, with the format \<open>named\<close>, the name in lower case
  (as long as the name and without a capital letter from A to Z) or \<open>system\<close>, and the
  visitor does not return the skip signal; an identifier in none of the sets is pruned and
  records nothing.
\<close>

lemma lowerChar_no_capital: "\<not> (65 \<le> (of_char (lowerChar ch) :: nat) \<and> (of_char (lowerChar ch) :: nat) \<le> 90)"
  by (auto simp: lowerChar_def Let_def mod_if split: if_splits)

lemma toLowerCase_no_capital:
  "\<forall>ch \<in> set (toLowerCase s). \<not> (65 \<le> (of_char ch :: nat) \<and> (of_char ch :: nat) \<le> 90)"
  using lowerChar_no_capital by (fastforce simp: toLowerCase_def)

theorem identifier_color_lookup:
  "(length name < 3 \<or> 20 < length name \<longrightarrow>
      value_visitor env css property c (Identifier l name) st = Inr (Skip, st)) \<and>
   (3 \<le> length name \<and> length name \<le> 20 \<longrightarrow>
      (name \<in> namedColors env \<longrightarrow>
         value_visitor env css property c (Identifier l name) st =
           Inr (Continue,
             st\<lparr>colors := ctx_push (stringifyNode css (Identifier l name)) property (colors st),
                colorFormats := cc_push ''named'' (colorFormats st)\<rparr>)) \<and>
      (name \<notin> namedColors env \<and> name \<in> colorKeywords env \<longrightarrow>
         value_visitor env css property c (Identifier l name) st =
           Inr (Continue,
             st\<lparr>colors := ctx_push (stringifyNode css (Identifier l name)) property (colors st),
                colorFormats := cc_push (toLowerCase name) (colorFormats st)\<rparr>) \<and>
         length (toLowerCase name) = length name \<and>
         (\<forall>ch \<in> set (toLowerCase name). \<not> (65 \<le> (of_char ch :: nat) \<and> (of_char ch :: nat) \<le> 90))) \<and>
      (name \<notin> namedColors env \<and> name \<notin> colorKeywords env \<and> name \<in> systemColors env \<longrightarrow>
         value_visitor env css property c (Identifier l name) st =
           Inr (Continue,
             st\<lparr>colors := ctx_push (stringifyNode css (Identifier l name)) property (colors st),
                colorFormats := cc_push ''system'' (colorFormats st)\<rparr>)) \<and>
      (name \<notin> namedColors env \<and> name \<notin> colorKeywords env \<and> name \<notin> systemColors env \<longrightarrow>
         value_visitor env css property c (Identifier l name) st = Inr (Skip, st)))"
  using toLowerCase_no_capital [of name] by (auto simp: record_color_def toLowerCase_def)

theorem identifier_color_lookup_witness:
  "value_visitor (sample_helpers red_ast []) ''a{color:red}'' ''color'' root_ctx
      (Identifier (src 8 11) ''red'') initial_state =
     Inr (Continue,
       initial_state\<lparr>colors := [(''red'', \<lparr>item_total = 1, item_contexts = [(''color'', 1)]\<rparr>)],
                     colorFormats := [(''named'', 1)]\<rparr>) \<and>
   value_visitor (sample_helpers red_ast []) ''a{color:currentcolor}'' ''color'' root_ctx
      (Identifier (src 8 20) ''currentcolor'') initial_state =
     Inr (Continue,
       initial_state\<lparr>colors := [(''currentcolor'', \<lparr>item_total = 1, item_contexts = [(''color'', 1)]\<rparr>)],
                     colorFormats := [(''currentcolor'', 1)]\<rparr>) \<and>
   value_visitor ((sample_helpers red_ast [])\<lparr>colorKeywords := {''CurrentColor''}\<rparr>)
      ''a{color:CurrentColor}'' ''color'' root_ctx (Identifier (src 8 20) ''CurrentColor'') initial_state =
     Inr (Continue,
       initial_state\<lparr>colors := [(''CurrentColor'', \<lparr>item_total = 1, item_contexts = [(''color'', 1)]\<rparr>)],
                     colorFormats := [(''currentcolor'', 1)]\<rparr>) \<and>
   value_visitor (sample_helpers red_ast []) ''a{color:canvas}'' ''color'' root_ctx
      (Identifier (src 8 14) ''canvas'') initial_state =
     Inr (Continue,
       initial_state\<lparr>colors := [(''canvas'', \<lparr>item_total = 1, item_contexts = [(''color'', 1)]\<rparr>)],
                     colorFormats := [(''system'', 1)]\<rparr>) \<and>
   value_visitor (sample_helpers red_ast []) ''a{display:flex}'' ''display'' root_ctx
      (Identifier (src 10 14) ''flex'') initial_state = Inr (Skip, initial_state) \<and>
   value_visitor (sample_helpers red_ast []) ''a{float:no}'' ''float'' root_ctx
      (Identifier (src 8 10) ''no'') initial_state = Inr (Skip, initial_state)"
  using
    identifier_color_lookup [of "''red''" "sample_helpers red_ast []" "''a{color:red}''" "''color''"
      root_ctx "src 8 11" initial_state]
    identifier_color_lookup [of "''currentcolor''" "sample_helpers red_ast []" "''a{color:currentcolor}''"
      "''color''" root_ctx "src 8 20" initial_state]
    identifier_color_lookup [of "''CurrentColor''"
      "(sample_helpers red_ast [])\<lparr>colorKeywords := {''CurrentColor''}\<rparr>" "''a{color:CurrentColor}''"
      "''color''" root_ctx "src 8 20" initial_state]
    identifier_color_lookup [of "''canvas''" "sample_helpers red_ast []" "''a{color:canvas}''" "''color''"
      root_ctx "src 8 14" initial_state]
    identifier_color_lookup [of "''flex''" "sample_helpers red_ast []" "''a{display:flex}''" "''display''"
      root_ctx "src 10 14" initial_state]
    identifier_color_lookup [of "''no''" "sample_helpers red_ast []" "''a{float:no}''" "''float''"
      root_ctx "src 8 10" initial_state]
  by (simp add: eval_defs initial_state_def toLowerCase_def lowerChar_def record_color_def char_of_def bit_0)

section \<open>Running minimum and maximum of the specificity\<close>

lemma run_min_max:
  assumes "run env css = Inr st"
  shows "minSpecificity st = foldl (update_min (compareSpecificity env)) None (selector_samples env css) \<and>
         maxSpecificity st = foldl (update_max (compareSpecificity env)) None (selector_samples env css)"
proof -
  let ?P = "\<lambda>p. minSpecificity (fst p) =
        foldl (update_min (compareSpecificity env)) None (map (calculate env \<circ> snd) (filter (plain_selector env) (snd p))) \<and>
      maxSpecificity (fst p) =
        foldl (update_max (compareSpecificity env)) None (map (calculate env \<circ> snd) (filter (plain_selector env) (snd p)))"
  have "?P (st, visited env css)"
  proof (rule run_invariant [where P = ?P, OF _ _ assms])
    fix c n s tr sg s'
    assume "?P (s, tr)" and "visitor env css c n s = Inr (sg, s')"
    then show "?P (s', tr @ [(c, n)])"
      using visitor_effect(1,2) [of env css c n s sg s'] by simp
  next
    fix comments
    show "?P (fold onComment comments initial_state, [])"
      by (simp add: fold_onComment initial_state_def)
  qed
  then show ?thesis by (simp add: selector_samples_def)
qed

text \<open>
  C1. Over the specificity tuples of the visited non-keyframe selectors, in the order
  of the visits, the report's \<open>selectors.specificity.min\<close> is the running value that
  starts as the first tuple and is replaced by the candidate exactly when
  \<open>compareSpecificity(current, candidate) < 0\<close>, and \<open>selectors.specificity.max\<close> the one
  that is replaced exactly when \<open>compareSpecificity(current, candidate) > 0\<close>; both are
  \<open>(0, 0, 0)\<close> when no such selector was visited. This holds for every comparison function,
  the ascending lexicographic one among them.
\<close>

theorem specificity_min_max_tracking:
  "analyze env now css = Inr r \<Longrightarrow>
   specificity_min (selectors_specificity (report_selectors r)) =
     (case foldl (update_min (compareSpecificity env)) None (selector_samples env css) of
        None \<Rightarrow> (0, 0, 0) | Some m \<Rightarrow> m) \<and>
   specificity_max (selectors_specificity (report_selectors r)) =
     (case foldl (update_max (compareSpecificity env)) None (selector_samples env css) of
        None \<Rightarrow> (0, 0, 0) | Some m \<Rightarrow> m)"
  by (erule analyze_run) (use run_min_max in \<open>simp add: make_report_def selectors_of_def Let_def\<close>)

theorem specificity_min_max_tracking_witness:
  "\<exists>r. analyze (sample_helpers pair_ast []) (\<lambda>k. 0) pair_css = Inr r \<and>
       specificity_min (selectors_specificity (report_selectors r)) = (1, 0, 0) \<and>
       specificity_max (selectors_specificity (report_selectors r)) = (0, 0, 1) \<and>
       foldl (update_min compare_ascending) None (selector_samples (sample_helpers pair_ast []) pair_css) =
         Some (1, 0, 0) \<and>
       foldl (update_max compare_ascending) None (selector_samples (sample_helpers pair_ast []) pair_css) =
         Some (0, 0, 1)"
proof -
  have "\<exists>st. run (sample_helpers pair_ast []) pair_css = Inr st \<and>
      minSpecificity st = Some (1, 0, 0) \<and> maxSpecificity st = Some (0, 0, 1)"
    by (simp add: run_defs sample_defs pair_ast_def pair_css_def)
  then obtain st where st: "run (sample_helpers pair_ast []) pair_css = Inr st"
    and mm: "minSpecificity st = Some (1, 0, 0)" "maxSpecificity st = Some (0, 0, 1)"
    by blast
  from analyze_of_run [OF st, of "\<lambda>k. 0"] mm
  obtain r where r: "analyze (sample_helpers pair_ast []) (\<lambda>k. 0) pair_css = Inr r"
    and fields: "specificity_min (selectors_specificity (report_selectors r)) = (1, 0, 0)"
      "specificity_max (selectors_specificity (report_selectors r)) = (0, 0, 1)"
    by (simp add: make_report_def selectors_of_def Let_def)
  have cmp: "compareSpecificity (sample_helpers pair_ast []) = compare_ascending"
    by (simp add: sample_helpers_def)
  from specificity_min_max_tracking [OF r] fields
  have "foldl (update_min compare_ascending) None (selector_samples (sample_helpers pair_ast []) pair_css) =
         Some (1, 0, 0) \<and>
       foldl (update_max compare_ascending) None (selector_samples (sample_helpers pair_ast []) pair_css) =
         Some (0, 0, 1)"
    unfolding cmp by (auto split: option.splits)
  with r fields show ?thesis by blast
qed

section \<open>Source lines of code and font-face records\<close>

lemma run_counts:
  assumes "run env css = Inr st"
  shows "totalAtRules st = length (filter is_Atrule (visited env css)) \<and>
         length (fontfaces st) = length (filter is_fontface (visited env css))"
proof -
  let ?P = "\<lambda>p. totalAtRules (fst p) = length (filter is_Atrule (snd p)) \<and>
      length (fontfaces (fst p)) = length (filter is_fontface (snd p))"
  have "?P (st, visited env css)"
  proof (rule run_invariant [where P = ?P, OF _ _ assms])
    fix c n s tr sg s'
    assume "?P (s, tr)" and "visitor env css c n s = Inr (sg, s')"
    then show "?P (s', tr @ [(c, n)])"
      using visitor_effect(3,4) [of env css c n s sg s'] by simp
  next
    fix comments
    show "?P (fold onComment comments initial_state, [])"
      by (simp add: fold_onComment initial_state_def)
  qed
  then show ?thesis by simp
qed

text \<open>
  C9. \<open>stylesheet.sourceLinesOfCode\<close> is the sum of the number of at-rules (the
  counter \<open>totalAtRules\<close>, which is the number of at-rule nodes the visitor was called on),
  \<open>selectors.total\<close> (the non-keyframe selectors), \<open>declarations.total\<close> and the total of
  \<open>selectors.keyframes\<close>.
\<close>

theorem source_lines_of_code_sum:
  "analyze env now css = Inr r \<Longrightarrow>
   sourceLinesOfCode (report_stylesheet r) =
     length (filter is_Atrule (visited env css)) + selectors_total (report_selectors r)
       + declarations_total (report_declarations r)
       + count_total (selectors_keyframes (report_selectors r))"
  by (erule analyze_run)
     (use run_counts in \<open>simp add: make_report_def stylesheet_of_def selectors_of_def declarations_of_def
        cc_count_def Let_def\<close>)

theorem source_lines_of_code_sum_witness:
  "\<exists>r. analyze (sample_helpers keyframes_ast []) (\<lambda>k. 0) keyframes_css = Inr r \<and>
       sourceLinesOfCode (report_stylesheet r) = 3 \<and>
       selectors_total (report_selectors r) = 0 \<and>
       declarations_total (report_declarations r) = 1 \<and>
       count_total (selectors_keyframes (report_selectors r)) = 1 \<and>
       length (filter is_Atrule (visited (sample_helpers keyframes_ast []) keyframes_css)) = 1"
proof -
  have "\<exists>st. run (sample_helpers keyframes_ast []) keyframes_css = Inr st \<and> totalAtRules st = 1 \<and>
      selectorComplexities st = [] \<and> totalDeclarations st = 1 \<and> keyframeSelectors st = [(''to'', 1)]"
    by (simp add: run_defs sample_defs keyframes_ast_def keyframes_selector_def keyframes_css_def)
  then obtain st where st: "run (sample_helpers keyframes_ast []) keyframes_css = Inr st"
    and fields: "totalAtRules st = 1" "selectorComplexities st = []" "totalDeclarations st = 1"
      "keyframeSelectors st = [(''to'', 1)]"
    by blast
  from analyze_of_run [OF st, of "\<lambda>k. 0"] fields
  obtain r where r: "analyze (sample_helpers keyframes_ast []) (\<lambda>k. 0) keyframes_css = Inr r"
    and totals: "sourceLinesOfCode (report_stylesheet r) = 3"
      "selectors_total (report_selectors r) = 0" "declarations_total (report_declarations r) = 1"
      "count_total (selectors_keyframes (report_selectors r)) = 1"
    by (simp add: make_report_def stylesheet_of_def selectors_of_def declarations_of_def cc_count_def
        cc_size_def agg_size_def Let_def)
  from source_lines_of_code_sum [OF r] r totals show ?thesis by auto
qed

text \<open>
  C10. In \<open>atrules.fontface\<close>, \<open>total\<close> and \<open>totalUnique\<close> are both the number of
  \<open>@font-face\<close> at-rules the visitor was called on, \<open>unique\<close> holds one record for each of
  them, equal records included, and \<open>uniquenessRatio\<close> is 0 when the total is 0 and 1
  otherwise.
\<close>

theorem fontface_never_deduplicated:
  "analyze env now css = Inr r \<Longrightarrow>
   fontface_total (atrules_fontface (report_atrules r)) = length (filter is_fontface (visited env css)) \<and>
   fontface_totalUnique (atrules_fontface (report_atrules r)) =
     fontface_total (atrules_fontface (report_atrules r)) \<and>
   length (fontface_unique (atrules_fontface (report_atrules r))) =
     fontface_total (atrules_fontface (report_atrules r)) \<and>
   fontface_uniquenessRatio (atrules_fontface (report_atrules r)) =
     (if fontface_total (atrules_fontface (report_atrules r)) = 0 then 0 else 1)"
  by (erule analyze_run) (use run_counts in \<open>simp add: make_report_def atrules_of_def\<close>)

theorem fontface_never_deduplicated_witness:
  "\<exists>r. analyze (sample_helpers fontface_ast []) (\<lambda>k. 0) fontface_css = Inr r \<and>
       fontface_unique (atrules_fontface (report_atrules r)) =
         [[(''font-family'', ''x'')], [(''font-family'', ''x'')]] \<and>
       fontface_total (atrules_fontface (report_atrules r)) = 2 \<and>
       fontface_totalUnique (atrules_fontface (report_atrules r)) = 2 \<and>
       fontface_uniquenessRatio (atrules_fontface (report_atrules r)) = 1 \<and>
       length (filter is_fontface (visited (sample_helpers fontface_ast []) fontface_css)) = 2"
proof -
  have "\<exists>st. run (sample_helpers fontface_ast []) fontface_css = Inr st \<and>
      fontfaces st = [[(''font-family'', ''x'')], [(''font-family'', ''x'')]]"
    by (simp add: run_defs sample_defs fontface_ast_def fontface_rule_def fontface_css_def)
  then obtain st where st: "run (sample_helpers fontface_ast []) fontface_css = Inr st"
    and ff: "fontfaces st = [[(''font-family'', ''x'')], [(''font-family'', ''x'')]]"
    by blast
  from analyze_of_run [OF st, of "\<lambda>k. 0"]
  obtain r where r: "analyze (sample_helpers fontface_ast []) (\<lambda>k. 0) fontface_css = Inr r"
    and u: "fontface_unique (atrules_fontface (report_atrules r)) = fontfaces st"
    by (simp add: make_report_def atrules_of_def)
  from fontface_never_deduplicated [OF r] u ff r show ?thesis by auto
qed

section \<open>Well-formed accumulators\<close>

lemmas without_defs = without_atrules_def without_rules_def without_selectors_def without_embeds_def
  without_declarations_def without_values_def without_colors_def

lemma atrules_ok_without [simp]:
  "atrules_ok (without_rules st) = atrules_ok st"
  "atrules_ok (without_selectors st) = atrules_ok st"
  "atrules_ok (without_embeds st) = atrules_ok st"
  "atrules_ok (without_declarations st) = atrules_ok st"
  "atrules_ok (without_values st) = atrules_ok st"
  by (simp_all add: atrules_ok_def without_defs)

lemma rules_ok_without [simp]:
  "rules_ok (without_atrules st) = rules_ok st"
  "rules_ok (without_selectors st) = rules_ok st"
  "rules_ok (without_embeds st) = rules_ok st"
  "rules_ok (without_declarations st) = rules_ok st"
  "rules_ok (without_values st) = rules_ok st"
  by (simp_all add: rules_ok_def without_defs)

lemma selectors_ok_without [simp]:
  "selectors_ok (without_atrules st) = selectors_ok st"
  "selectors_ok (without_rules st) = selectors_ok st"
  "selectors_ok (without_embeds st) = selectors_ok st"
  "selectors_ok (without_declarations st) = selectors_ok st"
  "selectors_ok (without_values st) = selectors_ok st"
  by (simp_all add: selectors_ok_def without_defs)

lemma embeds_ok_without [simp]:
  "embeds_ok (without_atrules st) = embeds_ok st"
  "embeds_ok (without_rules st) = embeds_ok st"
  "embeds_ok (without_selectors st) = embeds_ok st"
  "embeds_ok (without_declarations st) = embeds_ok st"
  "embeds_ok (without_values st) = embeds_ok st"
  by (simp_all add: embeds_ok_def without_defs)

lemma declarations_ok_without [simp]:
  "declarations_ok (without_atrules st) = declarations_ok st"
  "declarations_ok (without_rules st) = declarations_ok st"
  "declarations_ok (without_selectors st) = declarations_ok st"
  "declarations_ok (without_embeds st) = declarations_ok st"
  "declarations_ok (without_values st) = declarations_ok st"
  by (simp_all add: declarations_ok_def without_defs)

lemma values_ok_without [simp]:
  "values_ok (without_atrules st) = values_ok st"
  "values_ok (without_rules st) = values_ok st"
  "values_ok (without_selectors st) = values_ok st"
  "values_ok (without_embeds st) = values_ok st"
  "values_ok (without_declarations st) = values_ok st"
  by (simp_all add: values_ok_def without_defs)

lemma embedSize_without [simp]:
  "embedSize (without_atrules st) = embedSize st"
  "embedSize (without_rules st) = embedSize st"
  "embedSize (without_selectors st) = embedSize st"
  "embedSize (without_declarations st) = embedSize st"
  "embedSize (without_values st) = embedSize st"
  by (simp_all add: without_defs)

lemma visit_Declaration_prelude:
  "this_atrulePrelude c \<Longrightarrow> visit_Declaration env css c node imp property st = Inr (Skip, st)"
  by (simp add: visit_Declaration_def)

text \<open>What each case leaves alone.\<close>

lemma visit_Atrule_frame:
  "visit_Atrule env css name prelude block st = Inr (sg, st') \<Longrightarrow> without_atrules st' = without_atrules st"
  by (auto simp: visit_Atrule_def Let_def without_atrules_def split: if_splits option.splits)

lemma visit_Rule_frame:
  "visit_Rule prelude block st = Inr (sg, st') \<Longrightarrow> without_rules st' = without_rules st"
  by (auto simp: visit_Rule_def Let_def without_rules_def split: if_splits)

lemma visit_Selector_frame:
  "visit_Selector env css c node st = Inr (sg, st') \<Longrightarrow> without_selectors st' = without_selectors st"
  by (cases "in_keyframes env c")
     (auto simp: visit_Selector_plain visit_Selector_keyframes without_selectors_def)

lemma visit_Dimension_frame:
  "visit_Dimension env c unit st = Inr (sg, st') \<Longrightarrow> without_embeds st' = without_embeds st"
  by (auto simp: visit_Dimension_def without_embeds_def split: if_splits option.splits prod.splits)

lemma visit_Url_frame:
  "visit_Url env v st = Inr (sg, st') \<Longrightarrow> without_embeds st' = without_embeds st"
  by (auto simp: visit_Url_def without_embeds_def split: if_splits)

lemma visit_Declaration_frame:
  "visit_Declaration env css c node imp property st = Inr (sg, st') \<Longrightarrow>
   without_declarations st' = without_declarations st"
  by (cases "this_atrulePrelude c")
     (auto simp: visit_Declaration_eq visit_Declaration_prelude without_declarations_def)

text \<open>Each case keeps its own accumulators well-formed.\<close>

lemma visit_Atrule_own:
  "visit_Atrule env css name prelude block st = Inr (sg, st') \<Longrightarrow> atrules_ok st \<Longrightarrow> atrules_ok st'"
  by (auto simp: visit_Atrule_def Let_def atrules_ok_def split: if_splits option.splits)

lemma visit_Rule_own:
  "visit_Rule prelude block st = Inr (sg, st') \<Longrightarrow> rules_ok st \<Longrightarrow> rules_ok st'"
  by (auto simp: visit_Rule_def Let_def rules_ok_def split: if_splits)

lemma visit_Selector_own:
  "visit_Selector env css c node st = Inr (sg, st') \<Longrightarrow> selectors_ok st \<Longrightarrow> selectors_ok st'"
  using length_set_add [of "stringifyNode css node" "uniqueSelectors st"]
  by (cases "in_keyframes env c")
     (auto simp: visit_Selector_plain visit_Selector_keyframes selectors_ok_def agg_size_def agg_push_def)

lemma visit_Dimension_own:
  "visit_Dimension env c unit st = Inr (sg, st') \<Longrightarrow> embeds_ok st \<Longrightarrow> embeds_ok st'"
  by (auto simp: visit_Dimension_def embeds_ok_def split: if_splits option.splits prod.splits)

lemma visit_Url_own:
  "visit_Url env v st = Inr (sg, st') \<Longrightarrow> embeds_ok st \<Longrightarrow> embeds_ok st'"
  using length_embed_update [of "getEmbedType env v" "length v" "embedTypes_unique st"]
  by (auto simp: visit_Url_def embeds_ok_def split: if_splits)

lemma visit_Declaration_own:
  "visit_Declaration env css c node imp property st = Inr (sg, st') \<Longrightarrow>
   declarations_ok st \<Longrightarrow> declarations_ok st'"
  using length_set_add [of "stringifyNode css node" "uniqueDeclarations st"]
  by (cases "this_atrulePrelude c")
     (auto simp: visit_Declaration_eq visit_Declaration_prelude declarations_ok_def)

lemma value_visitor_own:
  "values_ok s \<Longrightarrow> value_visitor env css property c n s = Inr (sg, s') \<Longrightarrow> values_ok s'"
  by (cases n) (auto simp: values_ok_def record_color_def Let_def split: if_splits)

lemma walk_value_own:
  assumes "walk_value env css property n st = Inr (sg, st')" and "values_ok st"
  shows "values_ok st'"
proof -
  from assms(1) have w: "walk (value_visitor env css property) root_ctx n st = Inr st'"
    by (auto simp: walk_value_def split: sum.splits)
  from walk_invariant(1) [where P = values_ok, OF value_visitor_own assms(2) w] show ?thesis .
qed

lemma values_ok_update:
  "values_ok st \<Longrightarrow> cc_ok x \<Longrightarrow> values_ok (st\<lparr>vendorPrefixedValues := x\<rparr>)"
  "values_ok st \<Longrightarrow> cc_ok x \<Longrightarrow> values_ok (st\<lparr>valueBrowserhacks := x\<rparr>)"
  "values_ok st \<Longrightarrow> cc_ok x \<Longrightarrow> values_ok (st\<lparr>zindex := x\<rparr>)"
  "values_ok st \<Longrightarrow> cc_ok x \<Longrightarrow> values_ok (st\<lparr>textShadows := x\<rparr>)"
  "values_ok st \<Longrightarrow> cc_ok x \<Longrightarrow> values_ok (st\<lparr>boxShadows := x\<rparr>)"
  "values_ok st \<Longrightarrow> cc_ok x \<Longrightarrow> values_ok (st\<lparr>fontFamilies := x\<rparr>)"
  "values_ok st \<Longrightarrow> cc_ok x \<Longrightarrow> values_ok (st\<lparr>fontSizes := x\<rparr>)"
  "values_ok st \<Longrightarrow> cc_ok x \<Longrightarrow> values_ok (st\<lparr>lineHeights := x\<rparr>)"
  "values_ok st \<Longrightarrow> cc_ok x \<Longrightarrow> values_ok (st\<lparr>timingFunctions := x\<rparr>)"
  "values_ok st \<Longrightarrow> cc_ok x \<Longrightarrow> values_ok (st\<lparr>durations := x\<rparr>)"
  by (simp_all add: values_ok_def)

lemma values_ok_fields:
  assumes "values_ok st"
  shows "cc_ok (vendorPrefixedValues st)" "cc_ok (valueBrowserhacks st)" "cc_ok (zindex st)"
    "cc_ok (textShadows st)" "cc_ok (boxShadows st)" "cc_ok (fontFamilies st)" "cc_ok (fontSizes st)"
    "cc_ok (lineHeights st)" "cc_ok (timingFunctions st)" "cc_ok (durations st)" "ctx_ok (colors st)"
    "cc_ok (colorFormats st)" "cc_ok (gradients st)"
  using assms by (simp_all add: values_ok_def)

lemma visit_Value_own:
  assumes "visit_Value env css c node ns st = Inr (sg, st')" and "values_ok st"
  shows "values_ok st'"
  using assms values_ok_fields [OF assms(2)]
  by (auto simp: visit_Value_def Let_def push_font_parts_def
      split: if_splits option.splits prod.splits important.splits
      intro!: values_ok_update elim!: walk_value_own)

lemma frame_atrules:
  assumes "without_atrules st' = without_atrules st"
  shows "rules_ok st' = rules_ok st" "selectors_ok st' = selectors_ok st" "embeds_ok st' = embeds_ok st"
    "declarations_ok st' = declarations_ok st" "values_ok st' = values_ok st" "embedSize st' = embedSize st"
  using arg_cong [OF assms, of rules_ok] arg_cong [OF assms, of selectors_ok]
    arg_cong [OF assms, of embeds_ok] arg_cong [OF assms, of declarations_ok]
    arg_cong [OF assms, of values_ok] arg_cong [OF assms, of embedSize]
  by simp_all

lemma frame_rules:
  assumes "without_rules st' = without_rules st"
  shows "atrules_ok st' = atrules_ok st" "selectors_ok st' = selectors_ok st" "embeds_ok st' = embeds_ok st"
    "declarations_ok st' = declarations_ok st" "values_ok st' = values_ok st" "embedSize st' = embedSize st"
  using arg_cong [OF assms, of atrules_ok] arg_cong [OF assms, of selectors_ok]
    arg_cong [OF assms, of embeds_ok] arg_cong [OF assms, of declarations_ok]
    arg_cong [OF assms, of values_ok] arg_cong [OF assms, of embedSize]
  by simp_all

lemma frame_selectors:
  assumes "without_selectors st' = without_selectors st"
  shows "atrules_ok st' = atrules_ok st" "rules_ok st' = rules_ok st" "embeds_ok st' = embeds_ok st"
    "declarations_ok st' = declarations_ok st" "values_ok st' = values_ok st" "embedSize st' = embedSize st"
  using arg_cong [OF assms, of atrules_ok] arg_cong [OF assms, of rules_ok]
    arg_cong [OF assms, of embeds_ok] arg_cong [OF assms, of declarations_ok]
    arg_cong [OF assms, of values_ok] arg_cong [OF assms, of embedSize]
  by simp_all

lemma frame_embeds:
  assumes "without_embeds st' = without_embeds st"
  shows "atrules_ok st' = atrules_ok st" "rules_ok st' = rules_ok st" "selectors_ok st' = selectors_ok st"
    "declarations_ok st' = declarations_ok st" "values_ok st' = values_ok st"
  using arg_cong [OF assms, of atrules_ok] arg_cong [OF assms, of rules_ok]
    arg_cong [OF assms, of selectors_ok] arg_cong [OF assms, of declarations_ok]
    arg_cong [OF assms, of values_ok]
  by simp_all

lemma frame_declarations:
  assumes "without_declarations st' = without_declarations st"
  shows "atrules_ok st' = atrules_ok st" "rules_ok st' = rules_ok st" "selectors_ok st' = selectors_ok st"
    "embeds_ok st' = embeds_ok st" "values_ok st' = values_ok st" "embedSize st' = embedSize st"
  using arg_cong [OF assms, of atrules_ok] arg_cong [OF assms, of rules_ok]
    arg_cong [OF assms, of selectors_ok] arg_cong [OF assms, of embeds_ok]
    arg_cong [OF assms, of values_ok] arg_cong [OF assms, of embedSize]
  by simp_all

lemma frame_values:
  assumes "without_values st' = without_values st"
  shows "atrules_ok st' = atrules_ok st" "rules_ok st' = rules_ok st" "selectors_ok st' = selectors_ok st"
    "embeds_ok st' = embeds_ok st" "declarations_ok st' = declarations_ok st" "embedSize st' = embedSize st"
  using arg_cong [OF assms, of atrules_ok] arg_cong [OF assms, of rules_ok]
    arg_cong [OF assms, of selectors_ok] arg_cong [OF assms, of embeds_ok]
    arg_cong [OF assms, of declarations_ok] arg_cong [OF assms, of embedSize]
  by simp_all

lemma visitor_ok:
  assumes v: "visitor env css c n st = Inr (sg, st')" and ok: "accumulators_ok st"
  shows "accumulators_ok st'"
proof (cases n)
  case (Atrule l name prelude block)
  with v have h: "visit_Atrule env css name prelude block st = Inr (sg, st')" by simp
  from visit_Atrule_own [OF h] frame_atrules [OF visit_Atrule_frame [OF h]] ok
  show ?thesis by (simp add: accumulators_ok_def)
next
  case (Rule l prelude block)
  with v have h: "visit_Rule prelude block st = Inr (sg, st')" by simp
  from visit_Rule_own [OF h] frame_rules [OF visit_Rule_frame [OF h]] ok
  show ?thesis by (simp add: accumulators_ok_def)
next
  case (Selector l ns)
  with v have h: "visit_Selector env css c (Selector l ns) st = Inr (sg, st')" by simp
  from visit_Selector_own [OF h] frame_selectors [OF visit_Selector_frame [OF h]] ok
  show ?thesis by (simp add: accumulators_ok_def)
next
  case (Dimension l x unit)
  with v have h: "visit_Dimension env c unit st = Inr (sg, st')" by simp
  from visit_Dimension_own [OF h] frame_embeds [OF visit_Dimension_frame [OF h]] ok
  show ?thesis by (simp add: accumulators_ok_def)
next
  case (Url l x)
  with v have h: "visit_Url env x st = Inr (sg, st')" by simp
  from visit_Url_own [OF h] frame_embeds [OF visit_Url_frame [OF h]] ok
  show ?thesis by (simp add: accumulators_ok_def)
next
  case (Value l ns)
  with v have h: "visit_Value env css c (Value l ns) ns st = Inr (sg, st')" by simp
  from visit_Value_own [OF h] frame_values [OF visit_Value_frame [OF h]] ok
  show ?thesis by (simp add: accumulators_ok_def)
next
  case (Declaration l imp property x)
  with v have h: "visit_Declaration env css c (Declaration l imp property x) imp property st = Inr (sg, st')"
    by simp
  from visit_Declaration_own [OF h] frame_declarations [OF visit_Declaration_frame [OF h]] ok
  show ?thesis by (simp add: accumulators_ok_def)
qed (use v ok in auto)

lemma visitor_embedSize:
  assumes v: "visitor env css c n st = Inr (sg, st')"
  shows "embedSize st' \<le> embedSize st + own_url_size n"
proof (cases n)
  case (Atrule l name prelude block)
  with v have h: "visit_Atrule env css name prelude block st = Inr (sg, st')" by simp
  from frame_atrules(6) [OF visit_Atrule_frame [OF h]] show ?thesis by simp
next
  case (Rule l prelude block)
  with v have h: "visit_Rule prelude block st = Inr (sg, st')" by simp
  from frame_rules(6) [OF visit_Rule_frame [OF h]] show ?thesis by simp
next
  case (Selector l ns)
  with v have h: "visit_Selector env css c (Selector l ns) st = Inr (sg, st')" by simp
  from frame_selectors(6) [OF visit_Selector_frame [OF h]] show ?thesis by simp
next
  case (Dimension l x unit)
  with v show ?thesis
    by (auto simp: visit_Dimension_def split: if_splits option.splits prod.splits)
next
  case (Url l x)
  with v show ?thesis by (auto simp: visit_Url_def split: if_splits)
next
  case (Value l ns)
  with v have h: "visit_Value env css c (Value l ns) ns st = Inr (sg, st')" by simp
  from frame_values(6) [OF visit_Value_frame [OF h]] show ?thesis by simp
next
  case (Declaration l imp property x)
  with v have h: "visit_Declaration env css c (Declaration l imp property x) imp property st = Inr (sg, st')"
    by simp
  from frame_declarations(6) [OF visit_Declaration_frame [OF h]] show ?thesis by simp
qed (use v in auto)

lemma url_size_subnodes: "url_size n = own_url_size n + sum_list (map url_size (subnodes n))"
  by (cases n) (auto split: option.splits)

lemma walk_embedSize:
  "walk (visitor env css) c n s = Inr s' \<Longrightarrow> embedSize s' \<le> embedSize s + url_size n"
  "walk_list (visitor env css) c ns s = Inr s' \<Longrightarrow> embedSize s' \<le> embedSize s + sum_list (map url_size ns)"
proof (induction "visitor env css" c n s and "visitor env css" c ns s arbitrary: s' and s'
    rule: walk_walk_list.induct)
  case (1 c n s)
  show ?case
  proof (cases "visitor env css c n s")
    case (Inl e)
    with "1.prems" show ?thesis by (simp add: walk.simps)
  next
    case (Inr p)
    obtain sg s1 where p: "p = (sg, s1)" by (cases p)
    from visitor_embedSize [of env css c n s sg s1] Inr p
    have b1: "embedSize s1 \<le> embedSize s + own_url_size n" by simp
    show ?thesis
    proof (cases sg)
      case Continue
      with "1.prems" Inr p have "walk_list (visitor env css) (enter c n) (subnodes n) s1 = Inr s'"
        by (simp add: walk.simps)
      from "1.hyps" [OF Inr p [symmetric] Continue this] b1 show ?thesis
        by (simp add: url_size_subnodes [of n])
    next
      case Skip
      with "1.prems" Inr p b1 show ?thesis by (simp add: walk.simps url_size_subnodes [of n])
    qed
  qed
next
  case (2 c s)
  then show ?case by simp
next
  case (3 c n ns s)
  show ?case
  proof (cases "walk (visitor env css) c n s")
    case (Inl e)
    with "3.prems" show ?thesis by simp
  next
    case (Inr s1)
    from "3.prems" Inr have "walk_list (visitor env css) c ns s1 = Inr s'" by simp
    from "3.hyps"(2) [OF Inr this] "3.hyps"(1) [OF Inr] show ?thesis by simp
  qed
qed

lemma initial_ok: "accumulators_ok (fold onComment comments initial_state)"
  by (simp add: fold_onComment initial_state_def accumulators_ok_def atrules_ok_def rules_ok_def
      selectors_ok_def embeds_ok_def declarations_ok_def values_ok_def agg_size_def cc_size_def)

lemma run_ok:
  assumes "run env css = Inr st"
  shows "accumulators_ok st" and "embedSize st \<le> url_size (fst (parse env css))"
proof -
  obtain ast comments where p: "parse env css = (ast, comments)" by (cases "parse env css")
  with assms have w: "walk (visitor env css) root_ctx ast (fold onComment comments initial_state) = Inr st"
    by (simp add: run_def)
  from walk_invariant(1) [where P = accumulators_ok, OF visitor_ok initial_ok w]
  show "accumulators_ok st" .
  from walk_embedSize(1) [OF w] p show "embedSize st \<le> url_size (fst (parse env css))"
    by (simp add: fold_onComment initial_state_def)
qed

section \<open>Ratios\<close>

lemma ratio_ok_count [simp]:
  "cc_ok c \<Longrightarrow> ratio_ok (ratio (length c) (cc_size c), cc_size c)"
  "ctx_ok x \<Longrightarrow> ratio_ok (ratio (length x) (ctx_size x), ctx_size x)"
  by (simp_all add: ratio_ok_ratio cc_ok_length ctx_ok_length)

lemma stylesheet_ratios_ok:
  "embeds_ok st \<Longrightarrow> embedSize st \<le> length css \<Longrightarrow>
   list_all ratio_ok (stylesheet_ratios (stylesheet_of css lines st))"
  by (simp add: stylesheet_ratios_def stylesheet_of_def Let_def uniqueness_def embeds_ok_def cc_count_def
      ratio_ok_ratio)

lemma atrules_ratios_ok:
  "atrules_ok st \<Longrightarrow> list_all ratio_ok (atrules_ratios (atrules_of st))"
  by (simp add: atrules_ratios_def atrules_of_def Let_def uniqueness_def atrules_ok_def cc_count_def
      assign_hacks_def assign_ratio_def ratio_ok_ratio)
     (simp add: ratio_ok_def)

lemma rules_ratios_ok:
  "rules_ok st \<Longrightarrow> list_all ratio_ok (rules_ratios (rules_of st))"
  by (simp add: rules_ratios_def rules_of_def rule_stat_def Let_def rules_ok_def cc_count_def
      ratio_ok_ratio)

lemma selectors_ratios_ok:
  "selectors_ok st \<Longrightarrow> list_all ratio_ok (selectors_ratios (selectors_of st))"
  by (simp add: selectors_ratios_def selectors_of_def complexity_stat_def Let_def uniqueness_def
      selectors_ok_def cc_count_def assign_ratio_def ratio_ok_ratio)

lemma declarations_ratios_ok:
  "declarations_ok st \<Longrightarrow> list_all ratio_ok (declarations_ratios (declarations_of st))"
  by (simp add: declarations_ratios_def declarations_of_def Let_def declarations_ok_def ratio_ok_ratio)

lemma properties_ratios_ok:
  "declarations_ok st \<Longrightarrow> list_all ratio_ok (properties_ratios (properties_of st))"
  by (simp add: properties_ratios_def properties_of_def Let_def uniqueness_def declarations_ok_def
      cc_count_def assign_ratio_def ratio_ok_ratio)

lemma values_ratios_ok:
  "values_ok st \<Longrightarrow> embeds_ok st \<Longrightarrow> list_all ratio_ok (values_ratios (values_of st))"
  by (simp add: values_ratios_def values_of_def Let_def uniqueness_def values_ok_def embeds_ok_def
      cc_count_def ctx_count_def)

text \<open>
  C6. Every \<open>ratio\<close> and \<open>uniquenessRatio\<close> field of a report lies between 0 and 1 and
  is 0 when its denominator is 0. The tree is the parser's, an external collaborator; what
  is used of it is that the values of its url nodes are parts of the source text that do
  not overlap, so that their lengths add up to at most the length of the text (this bounds
  \<open>stylesheet.embeddedContent.size.ratio\<close>).
\<close>

theorem ratios_in_unit_interval:
  "analyze env now css = Inr r \<Longrightarrow> url_size (fst (parse env css)) \<le> length css \<Longrightarrow>
   list_all ratio_ok (ratio_fields r)"
proof (erule analyze_run)
  fix st
  assume contract: "url_size (fst (parse env css)) \<le> length css"
    and st: "run env css = Inr st"
    and r: "r = make_report css
        (end_line (node_loc (fst (parse env css))) - start_line (node_loc (fst (parse env css))) + 1) st
        \<lparr>parseTime = now 2 - now 1, analyzeTime = now 3 - now 2, meta_total = now 4 - now 0\<rparr>"
  from run_ok [OF st] contract have ok: "accumulators_ok st" and size: "embedSize st \<le> length css"
    by simp_all
  from ok size show "list_all ratio_ok (ratio_fields r)"
    unfolding r
    by (simp add: ratio_fields_def make_report_def accumulators_ok_def stylesheet_ratios_ok
        atrules_ratios_ok rules_ratios_ok selectors_ratios_ok declarations_ratios_ok
        properties_ratios_ok values_ratios_ok)
qed

theorem ratios_in_unit_interval_witness:
  "\<exists>r. analyze (sample_helpers url_ast []) steady_clock url_css = Inr r \<and>
       url_size (fst (parse (sample_helpers url_ast []) url_css)) \<le> length url_css \<and>
       size_ratio (embeddedContent_size (stylesheet_embeddedContent (report_stylesheet r))) = 1 / 2 \<and>
       list_all ratio_ok (ratio_fields r)"
proof -
  have "\<exists>st. run (sample_helpers url_ast []) url_css = Inr st \<and> embedSize st = 10"
    by (simp add: run_defs sample_defs url_ast_def url_css_def)
  then obtain st where st: "run (sample_helpers url_ast []) url_css = Inr st" and e: "embedSize st = 10"
    by blast
  from analyze_of_run [OF st, of steady_clock] e
  obtain r where r: "analyze (sample_helpers url_ast []) steady_clock url_css = Inr r"
    and half: "size_ratio (embeddedContent_size (stylesheet_embeddedContent (report_stylesheet r))) = 1 / 2"
    by (simp add: make_report_def stylesheet_of_def Let_def url_css_def ratio_def)
  have contract: "url_size (fst (parse (sample_helpers url_ast []) url_css)) \<le> length url_css"
    by (simp add: sample_helpers_def url_ast_def url_css_def)
  from ratios_in_unit_interval [OF r contract] r contract half show ?thesis by blast
qed

section \<open>The empty source and the timing fields\<close>

lemma run_empty:
  assumes "parse env [] = (StyleSheet l [], [])"
  shows "run env [] = Inr initial_state"
  using assms by (simp add: run_def walk.simps)

lemma initial_totals:
  "list_all (\<lambda>t. t = 0) (total_fields (make_report [] lines initial_state meta))"
  by (simp add: total_fields_def totals_def make_report_def stylesheet_of_def atrules_of_def rules_of_def
      selectors_of_def declarations_of_def properties_of_def values_of_def rule_stat_def
      complexity_stat_def assign_ratio_def assign_hacks_def cc_count_def ctx_count_def cc_size_def
      ctx_size_def agg_size_def cc_of_array_def toArray_def initial_state_def Let_def)

lemma initial_ratios:
  "list_all (\<lambda>p. fst p = 0) (ratio_fields (make_report [] lines initial_state meta))"
  by (simp add: ratio_fields_def stylesheet_ratios_def atrules_ratios_def rules_ratios_def
      selectors_ratios_def declarations_ratios_def properties_ratios_def values_ratios_def
      uniqueness_def make_report_def stylesheet_of_def atrules_of_def rules_of_def
      selectors_of_def declarations_of_def properties_of_def values_of_def rule_stat_def
      complexity_stat_def assign_ratio_def assign_hacks_def cc_count_def ctx_count_def cc_size_def
      ctx_size_def agg_size_def cc_of_array_def toArray_def initial_state_def Let_def ratio_def)

text \<open>
  C7. When the parser answers the empty source with a style sheet without children and
  reports no comment, the analysis returns a report in which every \<open>total\<close> and
  \<open>totalUnique\<close> field of the seven sections of the report (\<open>stylesheet\<close>, \<open>atrules\<close>,
  \<open>rules\<close>, \<open>selectors\<close>, \<open>declarations\<close>, \<open>properties\<close> and \<open>values\<close>) is 0, every ratio
  field is 0, and \<open>selectors.specificity.min\<close> and \<open>max\<close> are \<open>(0, 0, 0)\<close>, whatever the
  clock reads.
\<close>

theorem empty_source_report:
  "parse env [] = (StyleSheet l [], []) \<Longrightarrow>
   \<exists>r. analyze env now [] = Inr r \<and>
       list_all (\<lambda>t. t = 0) (total_fields r) \<and>
       list_all (\<lambda>p. fst p = 0) (ratio_fields r) \<and>
       specificity_min (selectors_specificity (report_selectors r)) = (0, 0, 0) \<and>
       specificity_max (selectors_specificity (report_selectors r)) = (0, 0, 0)"
  using analyze_of_run [OF run_empty, of env l now] initial_totals initial_ratios
  by (simp add: make_report_def selectors_of_def initial_state_def Let_def)

theorem empty_source_report_witness:
  "parse (sample_helpers empty_ast []) [] = (StyleSheet (src 0 0) [], []) \<and>
   (\<exists>r. analyze (sample_helpers empty_ast []) late_clock [] = Inr r \<and>
       list_all (\<lambda>t. t = 0) (total_fields r) \<and>
       list_all (\<lambda>p. fst p = 0) (ratio_fields r) \<and>
       specificity_min (selectors_specificity (report_selectors r)) = (0, 0, 0) \<and>
       specificity_max (selectors_specificity (report_selectors r)) = (0, 0, 0))"
  using empty_source_report [of "sample_helpers empty_ast []" "src 0 0" late_clock]
  by (simp add: sample_helpers_def empty_ast_def)

text \<open>
  C2, as stated, at a concrete input: two analyses of the empty source return different
  reports when the clock stands still during one and advances during the other.
\<close>

theorem timing_differs:
  "analyze (sample_helpers empty_ast []) steady_clock [] \<noteq> analyze (sample_helpers empty_ast []) late_clock []"
proof -
  have p: "parse (sample_helpers empty_ast []) [] = (StyleSheet (src 0 0) [], [])"
    by (simp add: sample_helpers_def empty_ast_def)
  from analyze_of_run [OF run_empty [OF p], of late_clock] analyze_of_run [OF run_empty [OF p], of steady_clock]
  show ?thesis
    by (simp add: late_clock_def steady_clock_def make_report_def)
qed

text \<open>
  C2, amended. Two analyses of the same source text both fail with the same error or
  both return a report, and the two reports are equal in every section but \<open>__meta__\<close>,
  which holds the parse time, the analysis time and the total time read from the clock:
  with \<open>__meta__\<close> set to the same value, the results are equal.
\<close>

theorem reports_agree_up_to_timing:
  "map_sum id (\<lambda>r. r\<lparr>report_meta := m\<rparr>) (analyze env now css) =
   map_sum id (\<lambda>r. r\<lparr>report_meta := m\<rparr>) (analyze env now' css)"
  by (simp add: analyze_def Let_def make_report_def split: sum.splits)

theorem reports_agree_up_to_timing_witness:
  "map_sum id (\<lambda>r. r\<lparr>report_meta := \<lparr>parseTime = 0, analyzeTime = 0, meta_total = 0\<rparr>\<rparr>)
     (analyze (sample_helpers red_ast []) steady_clock red_css) =
   map_sum id (\<lambda>r. r\<lparr>report_meta := \<lparr>parseTime = 0, analyzeTime = 0, meta_total = 0\<rparr>\<rparr>)
     (analyze (sample_helpers red_ast []) late_clock red_css)"
  using reports_agree_up_to_timing
    [of "\<lparr>parseTime = 0, analyzeTime = 0, meta_total = 0\<rparr>" "sample_helpers red_ast []" steady_clock
       red_css late_clock]
  by simp

end
